theory Spec2Isabelle
  imports Complex_Main "HOL-Library.Sublist"
begin

section \<open>Values of the platform\<close>

text \<open>
  A value thrown by a JavaScript \<^verbatim>\<open>throw\<close>, or the reason of a rejected promise:
  an \<^verbatim>\<open>Error\<close> object with its \<^verbatim>\<open>name\<close> and \<^verbatim>\<open>message\<close>, or a value that is
  not an instance of \<^verbatim>\<open>Error\<close>. \<^verbatim>\<open>new Error(m)\<close> has the name \<^verbatim>\<open>Error\<close>.
\<close>

datatype thrown = JsError string string | NonError

definition Error :: "string \<Rightarrow> thrown" where
  "Error m = JsError ''Error'' m"

text \<open>
  A \<^verbatim>\<open>VideoFrame\<close> is a handle: its identity, and the timestamp the source reads.
  Whether \<^verbatim>\<open>close()\<close> has been called on it is a fact of the store, below.
\<close>

record VideoFrame =
  frame_id :: nat
  frame_timestamp :: int

record MediaStreamTrack =
  track_id :: nat
  settings_width :: "nat option"
  settings_height :: "nat option"

text \<open>A \<^verbatim>\<open>MediaStream\<close> requested with \<^verbatim>\<open>audio: false\<close>: its tracks are its video tracks.\<close>

type_synonym MediaStream = "MediaStreamTrack list"

datatype codec_state = st_unconfigured | st_configured | st_closed

datatype chunk_type = key | delta

text \<open>
  An \<^verbatim>\<open>EncodedVideoChunk\<close>. The compressed bytes are not modelled; in their place the
  chunk names the frame it was encoded from.
\<close>

record EncodedVideoChunk =
  chunk_type :: chunk_type
  chunk_timestamp :: int
  chunk_payload :: nat

record IEncodedChunk =
  ec_data :: EncodedVideoChunk
  ec_timestamp :: int
  ec_type :: chunk_type

record IVideoEncoderConfig =
  cfg_codec :: string
  cfg_width :: nat
  cfg_height :: nat
  cfg_bitrate :: nat
  cfg_framerate :: nat

record IFaceDetectionResult =
  isValid :: bool
  hasFace :: bool
  isFacingCamera :: bool
  wearingGlasses :: bool
  wearingHeadwear :: bool
  confidence :: real
  reason :: string

section \<open>The objects of the program\<close>

text \<open>The platform's \<^verbatim>\<open>VideoEncoder\<close>: its state and the frames submitted and not yet output.\<close>

record VideoEncoder =
  enc_state :: codec_state
  enc_queue :: "(VideoFrame \<times> bool) list"

record VideoEncoderService =
  encoder :: "VideoEncoder option"
  encodedChunks :: "IEncodedChunk list"

text \<open>
  The platform's \<^verbatim>\<open>VideoDecoder\<close>: its state, the chunks submitted and not yet output,
  and whether the next chunk has to be a key chunk.
\<close>

record VideoDecoder =
  dec_state :: codec_state
  dec_queue :: "EncodedVideoChunk list"
  dec_key_required :: bool

record VideoDecoderService =
  decoder :: "VideoDecoder option"
  decodedFrames :: "VideoFrame list"

text \<open>
  \<^verbatim>\<open>FrameCaptureService\<close>. The processor is named by the track it reads and the
  reader by its number, the readers being numbered as they are made;
  \<open>frameUpdateLock\<close> is \<open>True\<close> while the promise is pending.
\<close>

record FrameCaptureService =
  videoTrack :: "MediaStreamTrack option"
  processor :: "nat option"
  reader :: "nat option"
  currentFrame :: "VideoFrame option"
  isReading :: bool
  frameUpdateLock :: bool

text \<open>
  A call of \<^verbatim>\<open>readFrames\<close> that is still running, and where it stands: it awaits
  \<^verbatim>\<open>reader.read()\<close> on the reader of that number, or that read has resolved with a frame
  and the loop has not gone on yet.
\<close>

datatype reader_task = Reading nat | Resolved VideoFrame

record overlay_div =
  parentNode :: bool
  style_display :: string
  style_backgroundColor :: string

record ScreenFlashController =
  overlay :: "overlay_div option"

record OpenAIFaceDetectionService =
  apiKey :: string

text \<open>
  The whole store: the orchestrator's own fields, the five services it is
  constructed with, and what the platform has been asked to do so far
  (frames closed, tracks stopped, readers cancelled, timers waited for,
  frames submitted to the encoder, frames drawn on the canvas), each in call order,
  with the calls of \<^verbatim>\<open>readFrames\<close> that run in the background.
  The logger, the progress and validation callbacks and the preview element only
  observe; they are left out.
\<close>

record world =
  mediaStream :: "MediaStream option"
  validationResults :: "IFaceDetectionResult list"
  capturedFramesForValidation :: "VideoFrame list"
  frameCaptureService :: FrameCaptureService
  flashController :: ScreenFlashController
  encoderService :: VideoEncoderService
  decoderService :: VideoDecoderService
  faceDetectionService :: "OpenAIFaceDetectionService option"
  next_frame_id :: nat
  closed_frames :: "nat list"
  stopped_tracks :: "nat list"
  cancelled_readers :: "nat list"
  timers :: "nat list"
  encode_calls :: "(VideoFrame \<times> bool) list"
  drawn :: "VideoFrame list"
  reader_tasks :: "reader_task list"
  readers_created :: nat

section \<open>What the run is given\<close>

record IVideoDeviceCapability =
  deviceId :: string
  label :: string
  cap_width :: nat
  cap_height :: nat
  cap_frameRate :: nat

datatype json =
  JNull | JBool bool | JNumber real | JString string | JArray "json list" | JObject "(string \<times> json) list"

text \<open>
  What one request to the classifier's endpoint does, step by step as \<^verbatim>\<open>analyzeFrame\<close>
  reads it: drawing the frame to a JPEG throws; \<^verbatim>\<open>fetch\<close> rejects (a network error, or
  the abort of the 30 second timer); the response is not \<^verbatim>\<open>ok\<close>, and reading its body
  throws or gives \<^verbatim>\<open>errorData.error?.message\<close>, beside the status text; the response is
  \<^verbatim>\<open>ok\<close> and reading \<^verbatim>\<open>data.choices[0].message.content\<close> throws; or that content is
  a string, given with what \<^verbatim>\<open>JSON.parse\<close> makes of it (\<open>None\<close> when it throws).
\<close>

datatype api_outcome =
    Base64Fails thrown
  | FetchFails thrown
  | ResponseNotOk "thrown + string option" string
  | ResponseBodyFails thrown
  | ResponseContent string "json option"

text \<open>
  Everything outside the program that a run depends on. The device manager's two calls
  return or throw; during the \<open>n\<close>-th timer wait of the run the camera track delivers
  the frames with the timestamps \<open>env_camera n\<close>, the read that the last of them
  resolves is still to go on when the wait ends if \<open>env_reader_lag n\<close>, and the
  encoder reports an error and closes when \<open>env_encoder_error n\<close>; the platform
  supports a configuration or not; the
  encoder may make a frame a key frame of its own accord; the canvas has a 2D context or
  not; the classifier answers each frame.
\<close>

record env =
  env_getBestDevice :: "thrown + IVideoDeviceCapability"
  env_getMediaStream :: "IVideoDeviceCapability \<Rightarrow> thrown + MediaStream"
  env_camera :: "nat \<Rightarrow> int list"
  env_reader_lag :: "nat \<Rightarrow> bool"
  env_encoder_error :: "nat \<Rightarrow> bool"
  env_encoder_supported :: "IVideoEncoderConfig \<Rightarrow> bool"
  env_encoder_key :: "VideoFrame \<Rightarrow> bool"
  env_decoder_supported :: "string \<Rightarrow> nat \<Rightarrow> nat \<Rightarrow> bool"
  env_canvas_context :: bool
  env_openai :: "VideoFrame \<Rightarrow> api_outcome"

section \<open>Calls that return or throw\<close>

type_synonym 'a io = "world \<Rightarrow> (thrown + 'a) \<times> world"

definition ret :: "'a \<Rightarrow> 'a io" where
  "ret x w = (Inr x, w)"

definition throw :: "thrown \<Rightarrow> 'a io" where
  "throw e w = (Inl e, w)"

definition modify :: "(world \<Rightarrow> world) \<Rightarrow> unit io" where
  "modify f w = (Inr (), f w)"

definition bnd :: "'a io \<Rightarrow> ('a \<Rightarrow> 'b io) \<Rightarrow> 'b io" where
  "bnd m f w = (case m w of (Inl e, w') \<Rightarrow> (Inl e, w') | (Inr x, w') \<Rightarrow> f x w')"

definition thn :: "unit io \<Rightarrow> 'b io \<Rightarrow> 'b io" where
  "thn m k = bnd m (\<lambda>_. k)"

text \<open>A \<^verbatim>\<open>for\<close> loop over the given values; a throw in the body leaves the loop.\<close>

primrec for_each :: "'a list \<Rightarrow> ('a \<Rightarrow> unit io) \<Rightarrow> unit io" where
  "for_each [] body = ret ()"
| "for_each (x # xs) body = thn (body x) (for_each xs body)"

section \<open>Platform calls\<close>

definition is_closed :: "world \<Rightarrow> VideoFrame \<Rightarrow> bool" where
  "is_closed w f = (frame_id f \<in> set (closed_frames w))"

definition VideoFrame_close :: "VideoFrame \<Rightarrow> unit io" where
  "VideoFrame_close f = modify (\<lambda>w. w\<lparr>closed_frames := closed_frames w @ [frame_id f]\<rparr>)"

text \<open>\<^verbatim>\<open>frame.clone()\<close>: a new frame with the same content; a closed frame cannot be cloned.\<close>

definition VideoFrame_clone :: "VideoFrame \<Rightarrow> VideoFrame io" where
  "VideoFrame_clone f w =
     (if is_closed w f then (Inl (JsError ''InvalidStateError'' ''Cannot clone closed VideoFrame''), w)
      else (Inr \<lparr>frame_id = next_frame_id w, frame_timestamp = frame_timestamp f\<rparr>,
            w\<lparr>next_frame_id := Suc (next_frame_id w)\<rparr>))"

definition MediaStreamTrack_stop :: "MediaStreamTrack \<Rightarrow> unit io" where
  "MediaStreamTrack_stop t = modify (\<lambda>w. w\<lparr>stopped_tracks := stopped_tracks w @ [track_id t]\<rparr>)"

text \<open>
  \<^verbatim>\<open>VideoEncoder.encode(frame, {keyFrame})\<close>: refuses a codec that is not configured
  and a closed frame, and queues the frame otherwise.
\<close>

definition VideoEncoder_encode :: "VideoEncoder \<Rightarrow> VideoFrame \<Rightarrow> bool \<Rightarrow> unit io" where
  "VideoEncoder_encode e f keyFrame w =
     (if enc_state e \<noteq> st_configured
      then (Inl (JsError ''InvalidStateError'' ''Cannot call encode on a codec that is not configured''), w)
      else if is_closed w f
      then (Inl (JsError ''TypeError'' ''Cannot encode a closed VideoFrame''), w)
      else (Inr (),
            w\<lparr>encoderService := (encoderService w)\<lparr>encoder := Some (e\<lparr>enc_queue := enc_queue e @ [(f, keyFrame)]\<rparr>)\<rparr>,
              encode_calls := encode_calls w @ [(f, keyFrame)]\<rparr>))"

section \<open>VideoEncoderService\<close>

definition codec_state_name :: "codec_state \<Rightarrow> string" where
  "codec_state_name s =
     (case s of st_unconfigured \<Rightarrow> ''unconfigured'' | st_configured \<Rightarrow> ''configured'' | st_closed \<Rightarrow> ''closed'')"

definition handleEncodedChunk :: "EncodedVideoChunk \<Rightarrow> unit io" where
  "handleEncodedChunk chunk =
     modify (\<lambda>w. w\<lparr>encoderService := (encoderService w)\<lparr>encodedChunks :=
        encodedChunks (encoderService w) @
          [\<lparr>ec_data = chunk, ec_timestamp = chunk_timestamp chunk, ec_type = chunk_type chunk\<rparr>]\<rparr>\<rparr>)"

definition encodeFrame :: "VideoFrame \<Rightarrow> bool \<Rightarrow> unit io" where
  "encodeFrame frame keyFrame w =
     (case encoder (encoderService w) of
        None \<Rightarrow> throw (Error ''Encoder not initialized'') w
      | Some e \<Rightarrow>
          if enc_state e \<noteq> st_configured
          then throw (Error (''Encoder is in '' @ codec_state_name (enc_state e) @ '' state'')) w
          else thn (VideoEncoder_encode e frame keyFrame) (VideoFrame_close frame) w)"


text \<open>
  \<^verbatim>\<open>VideoEncoder.flush()\<close>: every queued frame is output as one chunk, in the order of
  submission, through the output callback. A frame submitted with \<^verbatim>\<open>keyFrame: true\<close> gives
  a key chunk. Outputs that the platform delivers before the flush arrive in the same
  order, so the accumulated sequence after the flush is the same.
\<close>

definition encoder_output :: "env \<Rightarrow> VideoFrame \<times> bool \<Rightarrow> EncodedVideoChunk" where
  "encoder_output env fk =
     \<lparr>chunk_type = (if snd fk \<or> env_encoder_key env (fst fk) then key else delta),
      chunk_timestamp = frame_timestamp (fst fk),
      chunk_payload = frame_id (fst fk)\<rparr>"

definition VideoEncoder_flush :: "env \<Rightarrow> VideoEncoder \<Rightarrow> unit io" where
  "VideoEncoder_flush env e =
     (if enc_state e \<noteq> st_configured
      then throw (JsError ''InvalidStateError'' ''Cannot call flush on a codec that is not configured'')
      else thn (modify (\<lambda>w. w\<lparr>encoderService := (encoderService w)\<lparr>encoder := Some (e\<lparr>enc_queue := []\<rparr>)\<rparr>\<rparr>))
               (for_each (enc_queue e) (\<lambda>fk. handleEncodedChunk (encoder_output env fk))))"

definition VideoEncoderService_initialize :: "env \<Rightarrow> IVideoEncoderConfig \<Rightarrow> unit io" where
  "VideoEncoderService_initialize env config =
     (if \<not> env_encoder_supported env config
      then throw (Error (''Codec '' @ cfg_codec config @ '' is not supported''))
      else thn (modify (\<lambda>w. w\<lparr>encoderService := (encoderService w)\<lparr>encodedChunks := []\<rparr>\<rparr>))
               (modify (\<lambda>w. w\<lparr>encoderService := (encoderService w)\<lparr>encoder :=
                   Some \<lparr>enc_state = st_configured, enc_queue = []\<rparr>\<rparr>\<rparr>)))"

definition flush :: "env \<Rightarrow> unit io" where
  "flush env w =
     (case encoder (encoderService w) of
        None \<Rightarrow> throw (Error ''Encoder not initialized'') w
      | Some e \<Rightarrow>
          if enc_state e \<noteq> st_configured
          then throw (Error (''Cannot flush encoder in '' @ codec_state_name (enc_state e) @ '' state'')) w
          else VideoEncoder_flush env e w)"

definition getEncodedChunks :: "world \<Rightarrow> IEncodedChunk list" where
  "getEncodedChunks w = encodedChunks (encoderService w)"

definition VideoEncoderService_dispose :: "unit io" where
  "VideoEncoderService_dispose =
     thn (\<lambda>w. case encoder (encoderService w) of
                None \<Rightarrow> ret () w
              | Some e \<Rightarrow> modify (\<lambda>w. w\<lparr>encoderService := (encoderService w)\<lparr>encoder := None\<rparr>\<rparr>) w)
         (modify (\<lambda>w. w\<lparr>encoderService := (encoderService w)\<lparr>encodedChunks := []\<rparr>\<rparr>))"

section \<open>FrameCaptureService\<close>

text \<open>
  The head of the loop of \<^verbatim>\<open>readFrames\<close>: while \<open>isReading\<close> holds and the reader is
  there, the loop calls \<^verbatim>\<open>this.reader.read()\<close> and awaits it; otherwise the call ends.
\<close>

definition loop_head :: "world \<Rightarrow> reader_task list" where
  "loop_head w =
     (if isReading (frameCaptureService w)
      then (case reader (frameCaptureService w) of None \<Rightarrow> [] | Some r \<Rightarrow> [Reading r])
      else [])"

text \<open>
  The tail of the loop body, after both awaits: the previous current frame is closed and
  the frame read takes its place. Nothing is tested here.
\<close>

definition store_frame :: "VideoFrame \<Rightarrow> world \<Rightarrow> world" where
  "store_frame v w =
     (let w1 = (case currentFrame (frameCaptureService w) of
                  None \<Rightarrow> w
                | Some old \<Rightarrow> w\<lparr>closed_frames := closed_frames w @ [frame_id old]\<rparr>)
      in w1\<lparr>frameCaptureService := (frameCaptureService w1)\<lparr>currentFrame := Some v\<rparr>\<rparr>)"

text \<open>
  One call of \<^verbatim>\<open>readFrames\<close> goes on as far as it can. A read on a cancelled reader
  resolves with \<^verbatim>\<open>done\<close>, and the call ends; a read not yet resolved stays; a read
  resolved with a frame passes the lock once that is not pending, stores the frame and
  comes back to the head of the loop. What is left of the call is returned with the store.
\<close>

definition resume_task :: "reader_task \<Rightarrow> world \<Rightarrow> reader_task list \<times> world" where
  "resume_task t w =
     (case t of
        Reading r \<Rightarrow> if r \<in> set (cancelled_readers w) then ([], w) else ([t], w)
      | Resolved v \<Rightarrow>
          if frameUpdateLock (frameCaptureService w) then ([t], w)
          else (loop_head (store_frame v w), store_frame v w))"

primrec resume_tasks :: "reader_task list \<Rightarrow> world \<Rightarrow> reader_task list \<times> world" where
  "resume_tasks [] w = ([], w)"
| "resume_tasks (t # ts) w =
     (case resume_task t w of (ts1, w1) \<Rightarrow>
        (case resume_tasks ts w1 of (ts2, w2) \<Rightarrow> (ts1 @ ts2, w2)))"

text \<open>All the running calls of \<^verbatim>\<open>readFrames\<close> go on as far as they can.\<close>

definition readFrames_resume :: "world \<Rightarrow> world" where
  "readFrames_resume w =
     (case resume_tasks (reader_tasks w) w of (ts, w') \<Rightarrow> w'\<lparr>reader_tasks := ts\<rparr>)"

text \<open>
  The track delivers a frame with the given timestamp: every read that waits on a reader
  not cancelled resolves with a frame of its own.
\<close>

definition deliver_task :: "int \<Rightarrow> reader_task \<Rightarrow> world \<Rightarrow> reader_task \<times> world" where
  "deliver_task ts t w =
     (case t of
        Reading r \<Rightarrow>
          if r \<in> set (cancelled_readers w) then (t, w)
          else (Resolved \<lparr>frame_id = next_frame_id w, frame_timestamp = ts\<rparr>,
                w\<lparr>next_frame_id := Suc (next_frame_id w)\<rparr>)
      | Resolved v \<Rightarrow> (t, w))"

primrec deliver_tasks :: "int \<Rightarrow> reader_task list \<Rightarrow> world \<Rightarrow> reader_task list \<times> world" where
  "deliver_tasks ts [] w = ([], w)"
| "deliver_tasks ts (t # rest) w =
     (case deliver_task ts t w of (t1, w1) \<Rightarrow>
        (case deliver_tasks ts rest w1 of (rest2, w2) \<Rightarrow> (t1 # rest2, w2)))"

definition frame_delivered :: "int \<Rightarrow> world \<Rightarrow> world" where
  "frame_delivered ts w =
     (case deliver_tasks ts (reader_tasks w) w of (tasks, w') \<Rightarrow> w'\<lparr>reader_tasks := tasks\<rparr>)"

text \<open>
  The frames that arrive during one wait: after each the calls of \<^verbatim>\<open>readFrames\<close> go on;
  after the last one they do so only if they do not lag.
\<close>

fun deliveries :: "int list \<Rightarrow> bool \<Rightarrow> world \<Rightarrow> world" where
  "deliveries [] lag w = w"
| "deliveries [ts] lag w =
     (if lag then frame_delivered ts w else readFrames_resume (frame_delivered ts w))"
| "deliveries (ts # ts' # rest) lag w =
     deliveries (ts' # rest) lag (readFrames_resume (frame_delivered ts w))"

text \<open>The encoder's error callback only logs; the platform has closed the codec.\<close>

definition encoder_error_event :: "world \<Rightarrow> world" where
  "encoder_error_event w =
     (case encoder (encoderService w) of
        None \<Rightarrow> w
      | Some e \<Rightarrow> w\<lparr>encoderService := (encoderService w)\<lparr>encoder := Some (e\<lparr>enc_state := st_closed\<rparr>)\<rparr>\<rparr>)"

text \<open>
  \<^verbatim>\<open>new Promise((resolve) => setTimeout(resolve, ms))\<close>, awaited: the wait is recorded,
  and what happens meanwhile happens: the calls of \<^verbatim>\<open>readFrames\<close> go on, the frames
  of the camera arrive, the encoder may fail.
\<close>

definition wait :: "env \<Rightarrow> nat \<Rightarrow> world \<Rightarrow> world" where
  "wait env ms w =
     (let n = length (timers w);
          w1 = deliveries (env_camera env n) (env_reader_lag env n)
                 (readFrames_resume (w\<lparr>timers := timers w @ [ms]\<rparr>))
      in if env_encoder_error env n then encoder_error_event w1 else w1)"

definition sleep :: "env \<Rightarrow> nat \<Rightarrow> unit io" where
  "sleep env ms = modify (wait env ms)"

definition FIRST_FRAME_TIMEOUT_MS :: nat where
  "FIRST_FRAME_TIMEOUT_MS = 5000"

definition FIRST_FRAME_POLL_INTERVAL_MS :: nat where
  "FIRST_FRAME_POLL_INTERVAL_MS = 50"

text \<open>
  The polling loop of \<^verbatim>\<open>waitForFirstFrame\<close>. \<^verbatim>\<open>Date.now() - startTime\<close> is taken to be
  the time waited so far.
\<close>

function waitForFirstFrame_loop :: "env \<Rightarrow> nat \<Rightarrow> world \<Rightarrow> world" where
  "waitForFirstFrame_loop env elapsed w =
     (if currentFrame (frameCaptureService w) = None \<and> elapsed < FIRST_FRAME_TIMEOUT_MS
      then waitForFirstFrame_loop env (elapsed + FIRST_FRAME_POLL_INTERVAL_MS)
             (wait env FIRST_FRAME_POLL_INTERVAL_MS w)
      else w)"
  by pat_completeness auto
termination
  by (relation "measure (\<lambda>(env, elapsed, w). FIRST_FRAME_TIMEOUT_MS - elapsed)")
     (auto simp: FIRST_FRAME_TIMEOUT_MS_def FIRST_FRAME_POLL_INTERVAL_MS_def)

declare waitForFirstFrame_loop.simps [simp del]

definition waitForFirstFrame :: "env \<Rightarrow> unit io" where
  "waitForFirstFrame env =
     thn (modify (waitForFirstFrame_loop env 0))
         (\<lambda>w. if currentFrame (frameCaptureService w) = None
               then throw (Error ''Timeout waiting for first frame'') w
               else ret () w)"

definition FrameCaptureService_initialize :: "env \<Rightarrow> MediaStream \<Rightarrow> unit io" where
  "FrameCaptureService_initialize env stream =
     (case stream of
        [] \<Rightarrow> throw (Error ''No video tracks found in media stream'')
      | t # _ \<Rightarrow>
          thn (modify (\<lambda>w. w\<lparr>frameCaptureService := (frameCaptureService w)
                 \<lparr>videoTrack := Some t, processor := Some (track_id t),
                  reader := Some (readers_created w), isReading := True\<rparr>,
                 readers_created := Suc (readers_created w)\<rparr>))
         (thn (modify (\<lambda>w. w\<lparr>reader_tasks := reader_tasks w @ loop_head w\<rparr>))
              (waitForFirstFrame env)))"

definition captureFrame :: "VideoFrame io" where
  "captureFrame w =
     (case currentFrame (frameCaptureService w) of
        None \<Rightarrow> throw (Error ''No frame available to capture'') w
      | Some cur \<Rightarrow>
          (case VideoFrame_clone cur
                  (w\<lparr>frameCaptureService := (frameCaptureService w)\<lparr>frameUpdateLock := True\<rparr>\<rparr>) of
             (r, w') \<Rightarrow> (r, w'\<lparr>frameCaptureService := (frameCaptureService w')\<lparr>frameUpdateLock := False\<rparr>\<rparr>)))"

definition FrameCaptureService_dispose :: "unit io" where
  "FrameCaptureService_dispose =
     thn (modify (\<lambda>w. w\<lparr>frameCaptureService := (frameCaptureService w)\<lparr>isReading := False\<rparr>\<rparr>))
    (thn (\<lambda>w. case reader (frameCaptureService w) of
                None \<Rightarrow> ret () w
              | Some r \<Rightarrow> modify (\<lambda>w. w\<lparr>cancelled_readers := cancelled_readers w @ [r],
                                       frameCaptureService := (frameCaptureService w)\<lparr>reader := None\<rparr>\<rparr>) w)
    (thn (\<lambda>w. case currentFrame (frameCaptureService w) of
                None \<Rightarrow> ret () w
              | Some f \<Rightarrow> thn (VideoFrame_close f)
                  (modify (\<lambda>w. w\<lparr>frameCaptureService := (frameCaptureService w)\<lparr>currentFrame := None\<rparr>\<rparr>)) w)
    (thn (\<lambda>w. case videoTrack (frameCaptureService w) of
                None \<Rightarrow> ret () w
              | Some t \<Rightarrow> thn (MediaStreamTrack_stop t)
                  (modify (\<lambda>w. w\<lparr>frameCaptureService := (frameCaptureService w)\<lparr>videoTrack := None\<rparr>\<rparr>)) w)
         (modify (\<lambda>w. w\<lparr>frameCaptureService := (frameCaptureService w)\<lparr>processor := None\<rparr>\<rparr>)))))"

section \<open>ScreenFlashController\<close>

datatype FlashColor = BLACK | WHITE

definition createOverlay :: "ScreenFlashController" where
  "createOverlay = \<lparr>overlay = Some \<lparr>parentNode = True, style_display = ''none'', style_backgroundColor = []\<rparr>\<rparr>"

definition setColor :: "FlashColor \<Rightarrow> unit io" where
  "setColor color w =
     (case overlay (flashController w) of
        None \<Rightarrow> ret () w
      | Some d \<Rightarrow> modify (\<lambda>w. w\<lparr>flashController := \<lparr>overlay = Some (d\<lparr>style_backgroundColor :=
                     (if color = BLACK then ''#000000'' else ''#FFFFFF'')\<rparr>)\<rparr>\<rparr>) w)"

definition show_overlay :: "unit io" where
  "show_overlay w =
     (case overlay (flashController w) of
        None \<Rightarrow> ret () w
      | Some d \<Rightarrow> modify (\<lambda>w. w\<lparr>flashController := \<lparr>overlay = Some (d\<lparr>style_display := ''block''\<rparr>)\<rparr>\<rparr>) w)"

definition hide_overlay :: "unit io" where
  "hide_overlay w =
     (case overlay (flashController w) of
        None \<Rightarrow> ret () w
      | Some d \<Rightarrow> modify (\<lambda>w. w\<lparr>flashController := \<lparr>overlay = Some (d\<lparr>style_display := ''none''\<rparr>)\<rparr>\<rparr>) w)"

definition ScreenFlashController_dispose :: "unit io" where
  "ScreenFlashController_dispose w =
     (case overlay (flashController w) of
        None \<Rightarrow> ret () w
      | Some d \<Rightarrow> if parentNode d
                  then modify (\<lambda>w. w\<lparr>flashController := \<lparr>overlay = None\<rparr>\<rparr>) w
                  else ret () w)"

section \<open>VideoDecoderService\<close>

definition FRAME_PLAYBACK_INTERVAL_MS :: nat where
  "FRAME_PLAYBACK_INTERVAL_MS = 500"

text \<open>
  \<^verbatim>\<open>VideoDecoder.decode(chunk)\<close> on the decoder the service holds: refuses a codec that
  is not configured, and a delta chunk where a key chunk is required.
\<close>

definition VideoDecoder_decode :: "EncodedVideoChunk \<Rightarrow> unit io" where
  "VideoDecoder_decode chunk w =
     (case decoder (decoderService w) of
        None \<Rightarrow> throw (JsError ''TypeError'' ''Cannot read properties of null (reading 'decode')'') w
      | Some d \<Rightarrow>
          if dec_state d \<noteq> st_configured
          then throw (JsError ''InvalidStateError'' ''Cannot call decode on a codec that is not configured'') w
          else if dec_key_required d \<and> chunk_type chunk \<noteq> key
          then throw (JsError ''DataError'' ''A key frame is required after configure() or flush()'') w
          else modify (\<lambda>w. w\<lparr>decoderService := (decoderService w)\<lparr>decoder :=
                 Some (d\<lparr>dec_queue := dec_queue d @ [chunk], dec_key_required := False\<rparr>)\<rparr>\<rparr>) w)"

text \<open>The output callback of the decoder: the decoded frame is kept.\<close>

definition decoder_output :: "EncodedVideoChunk \<Rightarrow> unit io" where
  "decoder_output chunk =
     modify (\<lambda>w. w\<lparr>decoderService := (decoderService w)\<lparr>decodedFrames :=
                    decodedFrames (decoderService w) @
                      [\<lparr>frame_id = next_frame_id w, frame_timestamp = chunk_timestamp chunk\<rparr>]\<rparr>,
                  next_frame_id := Suc (next_frame_id w)\<rparr>)"

text \<open>\<^verbatim>\<open>VideoDecoder.flush()\<close>: every queued chunk is output as one frame, in order.\<close>

definition VideoDecoder_flush :: "unit io" where
  "VideoDecoder_flush w =
     (case decoder (decoderService w) of
        None \<Rightarrow> throw (JsError ''TypeError'' ''Cannot read properties of null (reading 'flush')'') w
      | Some d \<Rightarrow>
          if dec_state d \<noteq> st_configured
          then throw (JsError ''InvalidStateError'' ''Cannot call flush on a codec that is not configured'') w
          else thn (modify (\<lambda>w. w\<lparr>decoderService := (decoderService w)\<lparr>decoder :=
                      Some (d\<lparr>dec_queue := [], dec_key_required := True\<rparr>)\<rparr>\<rparr>))
                   (for_each (dec_queue d) decoder_output) w)"

definition VideoDecoderService_initialize :: "env \<Rightarrow> string \<Rightarrow> nat \<Rightarrow> nat \<Rightarrow> unit io" where
  "VideoDecoderService_initialize env codec width height =
     (if \<not> env_decoder_supported env codec width height
      then throw (Error (''Decoder codec '' @ codec @ '' is not supported''))
      else thn (modify (\<lambda>w. w\<lparr>decoderService := (decoderService w)\<lparr>decodedFrames := []\<rparr>\<rparr>))
               (modify (\<lambda>w. w\<lparr>decoderService := (decoderService w)\<lparr>decoder :=
                   Some \<lparr>dec_state = st_configured, dec_queue = [], dec_key_required = True\<rparr>\<rparr>\<rparr>)))"

definition drawImage :: "VideoFrame \<Rightarrow> unit io" where
  "drawImage f = modify (\<lambda>w. w\<lparr>drawn := drawn w @ [f]\<rparr>)"

definition renderFrames :: "env \<Rightarrow> unit io" where
  "renderFrames env w =
     (if \<not> env_canvas_context env then throw (Error ''Failed to get canvas 2D context'') w
      else if decodedFrames (decoderService w) = [] then ret () w
      else (let frames = decodedFrames (decoderService w) in
            thn (for_each [0..<length frames] (\<lambda>i.
                   thn (drawImage (frames ! i))
                  (thn (if i < length frames - 1 then sleep env FRAME_PLAYBACK_INTERVAL_MS else ret ())
                       (VideoFrame_close (frames ! i)))))
                (modify (\<lambda>w. w\<lparr>decoderService := (decoderService w)\<lparr>decodedFrames := []\<rparr>\<rparr>))) w)"

definition VideoDecoderService_decodeAndRender :: "env \<Rightarrow> IEncodedChunk list \<Rightarrow> unit io" where
  "VideoDecoderService_decodeAndRender env chunks w =
     (case decoder (decoderService w) of
        None \<Rightarrow> throw (Error ''Decoder not initialized'') w
      | Some d \<Rightarrow>
          thn (for_each chunks (\<lambda>chunk. VideoDecoder_decode (ec_data chunk)))
         (thn VideoDecoder_flush
              (renderFrames env)) w)"

definition VideoDecoderService_dispose :: "unit io" where
  "VideoDecoderService_dispose =
     thn (\<lambda>w. for_each (decodedFrames (decoderService w)) VideoFrame_close w)
    (thn (modify (\<lambda>w. w\<lparr>decoderService := (decoderService w)\<lparr>decodedFrames := []\<rparr>\<rparr>))
         (\<lambda>w. case decoder (decoderService w) of
                None \<Rightarrow> ret () w
              | Some d \<Rightarrow> modify (\<lambda>w. w\<lparr>decoderService := (decoderService w)\<lparr>decoder := None\<rparr>\<rparr>) w))"

section \<open>OpenAIFaceDetectionService\<close>

text \<open>\<^verbatim>\<open>s.includes(t)\<close>\<close>

fun str_includes :: "string \<Rightarrow> string \<Rightarrow> bool" where
  "str_includes [] t = (t = [])"
| "str_includes (c # cs) t = (prefix t (c # cs) \<or> str_includes cs t)"

definition json_boolean_or_false :: "json option \<Rightarrow> bool" where
  "json_boolean_or_false v = (case v of Some (JBool b) \<Rightarrow> b | _ \<Rightarrow> False)"

text \<open>
  From \<^verbatim>\<open>JSON.parse(content)\<close> to the detection result: the value has to be an object
  (an array is one) with boolean \<^verbatim>\<open>hasFace\<close> and \<^verbatim>\<open>isFacingCamera\<close> and a number
  \<^verbatim>\<open>confidence\<close>.
\<close>

definition detectionResult :: "json \<Rightarrow> thrown + IFaceDetectionResult" where
  "detectionResult result =
     (case result of
        JObject response_data \<Rightarrow>
          (case (map_of response_data ''hasFace'', map_of response_data ''isFacingCamera'',
                 map_of response_data ''confidence'') of
             (Some (JBool hf), Some (JBool fc), Some (JNumber c)) \<Rightarrow>
               Inr \<lparr>isValid = (hf \<and> fc),
                    hasFace = hf,
                    isFacingCamera = fc,
                    wearingGlasses = json_boolean_or_false (map_of response_data ''wearingGlasses''),
                    wearingHeadwear = json_boolean_or_false (map_of response_data ''wearingHeadwear''),
                    confidence = max 0 (min 1 c),
                    reason = (case map_of response_data ''reason'' of
                                Some (JString s) \<Rightarrow> s | _ \<Rightarrow> ''No reason provided'')\<rparr>
           | _ \<Rightarrow> Inl (Error ''OpenAI response missing required fields (hasFace, isFacingCamera, confidence)''))
      | JArray _ \<Rightarrow> Inl (Error ''OpenAI response missing required fields (hasFace, isFacingCamera, confidence)'')
      | _ \<Rightarrow> Inl (Error ''OpenAI returned invalid response format (not an object)''))"

text \<open>The body of the outer \<^verbatim>\<open>try\<close> of \<^verbatim>\<open>analyzeFrame\<close>.\<close>

definition analyzeFrame_try :: "env \<Rightarrow> VideoFrame \<Rightarrow> thrown + IFaceDetectionResult" where
  "analyzeFrame_try env frame =
     (case env_openai env frame of
        Base64Fails e \<Rightarrow> Inl e
      | FetchFails e \<Rightarrow> Inl e
      | ResponseNotOk body statusText \<Rightarrow>
          (case body of
             Inl e \<Rightarrow> Inl e
           | Inr message \<Rightarrow>
               Inl (Error (''OpenAI API error: '' @
                     (case message of None \<Rightarrow> statusText
                      | Some m \<Rightarrow> if m = [] then statusText else m))))
      | ResponseBodyFails e \<Rightarrow> Inl e
      | ResponseContent content parsed \<Rightarrow>
          (case parsed of
             None \<Rightarrow> Inl (Error (''Failed to parse OpenAI response as JSON: '' @ take 100 content))
           | Some result \<Rightarrow> detectionResult result))"

text \<open>Its \<^verbatim>\<open>catch\<close>: three kinds of error are thrown again, the others become a result.\<close>

definition analyzeFrame_catch :: "thrown \<Rightarrow> thrown + IFaceDetectionResult" where
  "analyzeFrame_catch error =
     (let errorMessage = (case error of JsError n m \<Rightarrow> m | NonError \<Rightarrow> ''Unknown error'') in
      if (case error of JsError n m \<Rightarrow> n = ''AbortError'' | NonError \<Rightarrow> False)
      then Inl (Error ''OpenAI API request timed out after 30 seconds'')
      else if str_includes errorMessage ''API key'' \<or> str_includes errorMessage ''Unauthorized''
      then Inl (Error ''Invalid or missing OpenAI API key. Please check your API key.'')
      else if str_includes errorMessage ''rate limit'' \<or> str_includes errorMessage ''429''
      then Inl (Error ''OpenAI API rate limit exceeded. Please wait and try again.'')
      else Inr \<lparr>isValid = False,
                hasFace = False,
                isFacingCamera = False,
                wearingGlasses = False,
                wearingHeadwear = False,
                confidence = 0,
                reason = ''Analysis failed: '' @ errorMessage\<rparr>)"

text \<open>What \<^verbatim>\<open>analyzeFrame\<close> returns or throws.\<close>

definition analyzeFrame_outcome ::
  "env \<Rightarrow> OpenAIFaceDetectionService \<Rightarrow> VideoFrame \<Rightarrow> thrown + IFaceDetectionResult" where
  "analyzeFrame_outcome env service frame =
     (if apiKey service = [] then Inl (Error ''OpenAI API key not set'')
      else (case analyzeFrame_try env frame of
              Inr detection \<Rightarrow> Inr detection
            | Inl error \<Rightarrow> analyzeFrame_catch error))"

text \<open>It reads the frame and the network, and changes nothing in the store.\<close>

definition analyzeFrame :: "env \<Rightarrow> OpenAIFaceDetectionService \<Rightarrow> VideoFrame \<Rightarrow> IFaceDetectionResult io" where
  "analyzeFrame env service frame w = (analyzeFrame_outcome env service frame, w)"

section \<open>WebCodecsOrchestrator\<close>

definition FLASH_PATTERN :: "nat list" where
  "FLASH_PATTERN = [0, 0, 1, 1, 0, 0, 1, 1, 0, 0, 1, 1, 0, 0, 1, 1, 0, 0, 1, 1]"

definition TOTAL_DURATION_MS :: nat where
  "TOTAL_DURATION_MS = 10000"

definition FRAME_COUNT :: nat where
  "FRAME_COUNT = 20"

definition FRAME_INTERVAL_MS :: nat where
  "FRAME_INTERVAL_MS = TOTAL_DURATION_MS div FRAME_COUNT"

definition FLASH_DISPLAY_DELAY_MS :: nat where
  "FLASH_DISPLAY_DELAY_MS = 50"

definition VALIDATION_FRAME_SAMPLING_RATE :: nat where
  "VALIDATION_FRAME_SAMPLING_RATE = 5"

text \<open>\<^verbatim>\<open>settings.width || 1280\<close>\<close>

definition or_default :: "nat option \<Rightarrow> nat \<Rightarrow> nat" where
  "or_default v d = (case v of None \<Rightarrow> d | Some n \<Rightarrow> if n = 0 then d else n)"

definition initializeCamera :: "env \<Rightarrow> unit io" where
  "initializeCamera env =
     bnd (\<lambda>w. (env_getBestDevice env, w)) (\<lambda>device.
     bnd (\<lambda>w. (env_getMediaStream env device, w)) (\<lambda>stream.
     thn (modify (\<lambda>w. w\<lparr>mediaStream := Some stream\<rparr>))
         (FrameCaptureService_initialize env stream)))"

text \<open>
  \<^verbatim>\<open>this.mediaStream.getVideoTracks()[0].getSettings()\<close>, as both \<^verbatim>\<open>initializeEncoder\<close>
  and \<^verbatim>\<open>decodeAndRender\<close> read it.
\<close>

definition videoTrack_settings :: "MediaStreamTrack io" where
  "videoTrack_settings w =
     (case mediaStream w of
        None \<Rightarrow> throw (Error ''Media stream not initialized'') w
      | Some stream \<Rightarrow>
          (case stream of
             [] \<Rightarrow> throw (JsError ''TypeError'' ''Cannot read properties of undefined (reading 'getSettings')'') w
           | track # _ \<Rightarrow> ret track w))"

definition initializeEncoder :: "env \<Rightarrow> unit io" where
  "initializeEncoder env =
     bnd videoTrack_settings (\<lambda>settings.
       VideoEncoderService_initialize env
         \<lparr>cfg_codec = ''vp8'',
          cfg_width = or_default (settings_width settings) 1280,
          cfg_height = or_default (settings_height settings) 720,
          cfg_bitrate = 2000000,
          cfg_framerate = 30\<rparr>)"

text \<open>The body of the capture loop for the index \<open>i\<close>.\<close>

definition capture_step :: "env \<Rightarrow> nat \<Rightarrow> unit io" where
  "capture_step env i =
     thn (setColor (if FLASH_PATTERN ! i = 0 then BLACK else WHITE))
    (thn (sleep env FLASH_DISPLAY_DELAY_MS)
    (bnd captureFrame (\<lambda>frame.
     thn (\<lambda>w. if faceDetectionService w \<noteq> None \<and> i mod VALIDATION_FRAME_SAMPLING_RATE = 0
               then bnd (VideoFrame_clone frame) (\<lambda>copy.
                      modify (\<lambda>w. w\<lparr>capturedFramesForValidation :=
                                       capturedFramesForValidation w @ [copy]\<rparr>)) w
               else ret () w)
    (thn (encodeFrame frame (i = 0))
         (if i < FRAME_COUNT - 1
          then sleep env (FRAME_INTERVAL_MS - FLASH_DISPLAY_DELAY_MS)
          else ret ())))))"

definition captureAndEncodeFrames :: "env \<Rightarrow> unit io" where
  "captureAndEncodeFrames env =
     thn show_overlay
    (thn (modify (\<lambda>w. w\<lparr>capturedFramesForValidation := []\<rparr>))
    (thn (for_each [0..<FRAME_COUNT] (capture_step env))
    (thn hide_overlay
         (flush env))))"

definition validate_step :: "env \<Rightarrow> OpenAIFaceDetectionService \<Rightarrow> VideoFrame \<Rightarrow> unit io" where
  "validate_step env service frame =
     bnd (analyzeFrame env service frame) (\<lambda>validationResult.
     thn (modify (\<lambda>w. w\<lparr>validationResults := validationResults w @ [validationResult]\<rparr>))
         (VideoFrame_close frame))"

definition validateCapturedFrames :: "env \<Rightarrow> unit io" where
  "validateCapturedFrames env w =
     (case faceDetectionService w of
        None \<Rightarrow> ret () w
      | Some service \<Rightarrow>
          if capturedFramesForValidation w = [] then ret () w
          else thn (modify (\<lambda>w. w\<lparr>validationResults := []\<rparr>))
              (thn (for_each (capturedFramesForValidation w) (validate_step env service))
                   (modify (\<lambda>w. w\<lparr>capturedFramesForValidation := []\<rparr>))) w)"

definition decodeAndRender :: "env \<Rightarrow> unit io" where
  "decodeAndRender env w =
     (let encodedChunks = getEncodedChunks w in
      if encodedChunks = [] then throw (Error ''No encoded chunks available'') w
      else bnd videoTrack_settings (\<lambda>settings.
           thn (VideoDecoderService_initialize env ''vp8''
                  (or_default (settings_width settings) 1280)
                  (or_default (settings_height settings) 720))
               (VideoDecoderService_decodeAndRender env encodedChunks)) w)"

definition cleanup :: "unit io" where
  "cleanup =
     thn FrameCaptureService_dispose
    (thn VideoEncoderService_dispose
    (thn VideoDecoderService_dispose
    (thn ScreenFlashController_dispose
    (thn (\<lambda>w. for_each (capturedFramesForValidation w) VideoFrame_close w)
    (thn (modify (\<lambda>w. w\<lparr>capturedFramesForValidation := []\<rparr>))
         (\<lambda>w. case mediaStream w of
                None \<Rightarrow> ret () w
              | Some stream \<Rightarrow> thn (for_each stream MediaStreamTrack_stop)
                                   (modify (\<lambda>w. w\<lparr>mediaStream := None\<rparr>)) w))))))"

text \<open>The body of the \<^verbatim>\<open>try\<close> of \<^verbatim>\<open>execute\<close>: the five steps and the cleanup.\<close>

definition workflow :: "env \<Rightarrow> unit io" where
  "workflow env =
     thn (initializeCamera env)
    (thn (initializeEncoder env)
    (thn (captureAndEncodeFrames env)
    (thn (decodeAndRender env)
    (thn (\<lambda>w. if faceDetectionService w \<noteq> None then validateCapturedFrames env w else ret () w)
         cleanup))))"

text \<open>\<^verbatim>\<open>execute\<close>: what the \<^verbatim>\<open>try\<close> throws is caught, the cleanup runs, and it is thrown again.\<close>

definition execute :: "env \<Rightarrow> unit io" where
  "execute env w =
     (case workflow env w of
        (Inr u, w') \<Rightarrow> (Inr u, w')
      | (Inl error, w') \<Rightarrow> thn cleanup (throw error) w')"

definition getValidationResults :: "world \<Rightarrow> IFaceDetectionResult list" where
  "getValidationResults w = validationResults w"

text \<open>
  The store when the application has constructed the services and the orchestrator:
  the flash controller has made its overlay, nothing else is held.
\<close>

definition new_world :: "OpenAIFaceDetectionService option \<Rightarrow> world" where
  "new_world fds =
     \<lparr>mediaStream = None,
      validationResults = [],
      capturedFramesForValidation = [],
      frameCaptureService = \<lparr>videoTrack = None, processor = None, reader = None,
                              currentFrame = None, isReading = False, frameUpdateLock = False\<rparr>,
      flashController = createOverlay,
      encoderService = \<lparr>encoder = None, encodedChunks = []\<rparr>,
      decoderService = \<lparr>decoder = None, decodedFrames = []\<rparr>,
      faceDetectionService = fds,
      next_frame_id = 0,
      closed_frames = [],
      stopped_tracks = [],
      cancelled_readers = [],
      timers = [],
      encode_calls = [],
      drawn = [],
      reader_tasks = [],
      readers_created = 0\<rparr>"

section \<open>Auxiliary definitions\<close>

definition option_list :: "'a option \<Rightarrow> 'a list" where
  "option_list v = (case v of None \<Rightarrow> [] | Some x \<Rightarrow> [x])"

text \<open>The frames queued in the encoder, if there is one.\<close>

definition the_queue :: "world \<Rightarrow> (VideoFrame \<times> bool) list" where
  "the_queue w = (case encoder (encoderService w) of None \<Rightarrow> [] | Some e \<Rightarrow> enc_queue e)"

text \<open>The timer waits of the capture loop body for the index \<open>i\<close>.\<close>

definition step_waits :: "nat \<Rightarrow> nat list" where
  "step_waits i =
     FLASH_DISPLAY_DELAY_MS #
       (if i < FRAME_COUNT - 1 then [FRAME_INTERVAL_MS - FLASH_DISPLAY_DELAY_MS] else [])"

text \<open>The sampling \<^verbatim>\<open>if\<close> of the capture loop body.\<close>

definition sample_frame :: "nat \<Rightarrow> VideoFrame \<Rightarrow> unit io" where
  "sample_frame i frame =
     (\<lambda>w. if faceDetectionService w \<noteq> None \<and> i mod VALIDATION_FRAME_SAMPLING_RATE = 0
               then bnd (VideoFrame_clone frame) (\<lambda>copy.
                      modify (\<lambda>w. w\<lparr>capturedFramesForValidation :=
                                       capturedFramesForValidation w @ [copy]\<rparr>)) w
               else ret () w)"

text \<open>Whether the frame captured at an index is kept for validation.\<close>

definition sampled :: "world \<Rightarrow> VideoFrame \<times> nat \<Rightarrow> bool" where
  "sampled w fi = (faceDetectionService w \<noteq> None \<and> snd fi mod VALIDATION_FRAME_SAMPLING_RATE = 0)"

text \<open>The entry that \<open>handleEncodedChunk\<close> stores for the output of a submitted frame.\<close>

definition chunk_of :: "env \<Rightarrow> VideoFrame \<times> bool \<Rightarrow> IEncodedChunk" where
  "chunk_of env fk =
     \<lparr>ec_data = encoder_output env fk,
      ec_timestamp = chunk_timestamp (encoder_output env fk),
      ec_type = chunk_type (encoder_output env fk)\<rparr>"

text \<open>All the timer waits of the capture loop, in order.\<close>

definition capture_waits :: "nat list" where
  "capture_waits = concat (map step_waits [0..<FRAME_COUNT])"

text \<open>The key frame flags of the capture loop, in order: \<^verbatim>\<open>i === 0\<close>.\<close>

definition key_flags :: "bool list" where
  "key_flags = map (\<lambda>i. i = 0) [0..<FRAME_COUNT]"

text \<open>The fields that the decoder, the timer and the camera leave alone.\<close>

definition kept :: "world \<Rightarrow> world \<Rightarrow> bool" where
  "kept w w' =
     (capturedFramesForValidation w' = capturedFramesForValidation w
      \<and> faceDetectionService w' = faceDetectionService w
      \<and> validationResults w' = validationResults w
      \<and> mediaStream w' = mediaStream w
      \<and> encode_calls w' = encode_calls w)"

text \<open>A call keeps these fields, whatever it returns or throws.\<close>

definition keeps :: "'a io \<Rightarrow> bool" where
  "keeps m = (\<forall>w. kept w (snd (m w)))"

text \<open>A call that never throws.\<close>

definition returns :: "unit io \<Rightarrow> bool" where
  "returns m = (\<forall>w. fst (m w) = Inr ())"

text \<open>
  Two stores that differ at most in what the calls of \<^verbatim>\<open>readFrames\<close> and the camera
  change: the frame capture service, the frames closed, the next frame and those calls.
\<close>

definition same_outside :: "world \<Rightarrow> world \<Rightarrow> bool" where
  "same_outside w w' =
     (mediaStream w' = mediaStream w
      \<and> validationResults w' = validationResults w
      \<and> capturedFramesForValidation w' = capturedFramesForValidation w
      \<and> flashController w' = flashController w
      \<and> encoderService w' = encoderService w
      \<and> decoderService w' = decoderService w
      \<and> faceDetectionService w' = faceDetectionService w
      \<and> stopped_tracks w' = stopped_tracks w
      \<and> cancelled_readers w' = cancelled_readers w
      \<and> timers w' = timers w
      \<and> encode_calls w' = encode_calls w
      \<and> drawn w' = drawn w
      \<and> readers_created w' = readers_created w)"

text \<open>The store that \<open>cleanup\<close> leaves, written out field by field.\<close>

definition cleanup_state :: "world \<Rightarrow> world" where
  "cleanup_state w =
     w\<lparr>mediaStream := None,
       capturedFramesForValidation := [],
       frameCaptureService :=
          \<lparr>videoTrack = None, processor = None, reader = None, currentFrame = None,
           isReading = False, frameUpdateLock = frameUpdateLock (frameCaptureService w)\<rparr>,
       flashController := (case overlay (flashController w) of
                None \<Rightarrow> flashController w
              | Some d \<Rightarrow> if parentNode d then \<lparr>overlay = None\<rparr> else flashController w),
       encoderService := \<lparr>encoder = None, encodedChunks = []\<rparr>,
       decoderService := \<lparr>decoder = None, decodedFrames = []\<rparr>,
       cancelled_readers := cancelled_readers w @ option_list (reader (frameCaptureService w)),
       closed_frames := closed_frames w @ map frame_id (option_list (currentFrame (frameCaptureService w)))
            @ map frame_id (decodedFrames (decoderService w))
            @ map frame_id (capturedFramesForValidation w),
       stopped_tracks := stopped_tracks w @ map track_id (option_list (videoTrack (frameCaptureService w)))
            @ map track_id (case mediaStream w of None \<Rightarrow> [] | Some s \<Rightarrow> s)\<rparr>"

text \<open>
  The errors that the \<^verbatim>\<open>catch\<close> of \<^verbatim>\<open>analyzeFrame\<close> throws again: the abort of the timer,
  and the messages that speak of the API key or of the rate limit.
\<close>

definition error_message :: "thrown \<Rightarrow> string" where
  "error_message error = (case error of JsError n m \<Rightarrow> m | NonError \<Rightarrow> ''Unknown error'')"

definition rethrown :: "thrown \<Rightarrow> bool" where
  "rethrown error =
     ((case error of JsError n m \<Rightarrow> n = ''AbortError'' | NonError \<Rightarrow> False)
      \<or> str_includes (error_message error) ''API key''
      \<or> str_includes (error_message error) ''Unauthorized''
      \<or> str_includes (error_message error) ''rate limit''
      \<or> str_includes (error_message error) ''429'')"

definition failed_result :: "string \<Rightarrow> IFaceDetectionResult" where
  "failed_result message =
     \<lparr>isValid = False, hasFace = False, isFacingCamera = False, wearingGlasses = False,
      wearingHeadwear = False, confidence = 0, reason = ''Analysis failed: '' @ message\<rparr>"

subsection \<open>Inputs for the examples\<close>

text \<open>
  A camera that delivers its first frame during the first wait, a platform that
  supports the codec, and a classifier that sees a face in every frame.
\<close>

definition example_env :: env where
  "example_env =
     \<lparr>env_getBestDevice = Inr \<lparr>deviceId = ''cam1'', label = ''Front Camera'',
                                cap_width = 1280, cap_height = 720, cap_frameRate = 30\<rparr>,
      env_getMediaStream = (\<lambda>d. Inr [\<lparr>track_id = 7, settings_width = Some 1280, settings_height = Some 720\<rparr>]),
      env_camera = (\<lambda>n. if n = 0 then [0] else []),
      env_reader_lag = (\<lambda>n. False),
      env_encoder_error = (\<lambda>n. False),
      env_encoder_supported = (\<lambda>c. True),
      env_encoder_key = (\<lambda>f. False),
      env_decoder_supported = (\<lambda>c w h. True),
      env_canvas_context = True,
      env_openai = (\<lambda>f. ResponseContent ''{}''
         (Some (JObject [(''hasFace'', JBool True), (''isFacingCamera'', JBool True),
                         (''confidence'', JNumber 2)])))\<rparr>"

text \<open>A store in which the encoder is configured and holds one chunk.\<close>

definition configured_world :: world where
  "configured_world =
     (new_world None)\<lparr>encoderService :=
        \<lparr>encoder = Some \<lparr>enc_state = st_configured, enc_queue = []\<rparr>,
         encodedChunks = [\<lparr>ec_data = \<lparr>chunk_type = key, chunk_timestamp = 0, chunk_payload = 0\<rparr>,
                           ec_timestamp = 0, ec_type = key\<rparr>]\<rparr>,
        next_frame_id := 2\<rparr>"

definition example_frame :: VideoFrame where
  "example_frame = \<lparr>frame_id = 1, frame_timestamp = 1000\<rparr>"


text \<open>The classifier's request runs into the 30 second timer for every frame.\<close>

definition timeout_env :: env where
  "timeout_env = example_env\<lparr>env_openai :=
     (\<lambda>f. FetchFails (JsError ''AbortError'' ''The user aborted a request.''))\<rparr>"

text \<open>The network is down for every frame.\<close>

definition offline_env :: env where
  "offline_env = example_env\<lparr>env_openai := (\<lambda>f. FetchFails (JsError ''TypeError'' ''Failed to fetch''))\<rparr>"

definition example_service :: OpenAIFaceDetectionService where
  "example_service = \<lparr>apiKey = ''sk-test''\<rparr>"

text \<open>A store in which one sampled frame waits for validation.\<close>

definition sampled_world :: world where
  "sampled_world =
     (new_world (Some example_service))\<lparr>capturedFramesForValidation := [example_frame], next_frame_id := 2\<rparr>"

definition example_config :: IVideoEncoderConfig where
  "example_config = \<lparr>cfg_codec = ''vp8'', cfg_width = 1280, cfg_height = 720,
                      cfg_bitrate = 2000000, cfg_framerate = 30\<rparr>"

text \<open>The same store after the encoder has reported an error.\<close>

definition closed_encoder_world :: world where
  "closed_encoder_world = encoder_error_event configured_world"

text \<open>The camera track of the examples.\<close>

definition example_track :: MediaStreamTrack where
  "example_track = \<lparr>track_id = 7, settings_width = Some 1280, settings_height = Some 720\<rparr>"



text \<open>The environment of the examples with another classifier.\<close>

definition run_env :: "(VideoFrame \<Rightarrow> api_outcome) \<Rightarrow> env" where
  "run_env classifier = example_env\<lparr>env_openai := classifier\<rparr>"

text \<open>The store of the example run when the camera has been initialized, with a classifier configured.\<close>

definition camera_world :: world where
  "camera_world =
     (new_world (Some example_service))\<lparr>
        mediaStream := Some [example_track],
        frameCaptureService :=
          \<lparr>videoTrack = Some example_track, processor = Some 7, reader = Some 0,
           currentFrame = Some \<lparr>frame_id = 0, frame_timestamp = 0\<rparr>,
           isReading = True, frameUpdateLock = False\<rparr>,
        next_frame_id := 1,
        timers := [50],
        reader_tasks := [Reading 0],
        readers_created := 1\<rparr>"

text \<open>The store of the example run when the encoder has been initialized.\<close>

definition encoder_world :: world where
  "encoder_world =
     camera_world\<lparr>encoderService :=
       \<lparr>encoder = Some \<lparr>enc_state = st_configured, enc_queue = []\<rparr>, encodedChunks = []\<rparr>\<rparr>"

text \<open>The store of the example run when the decoding phase has returned, for a given classifier.\<close>

definition decoded_world :: "(VideoFrame \<Rightarrow> api_outcome) \<Rightarrow> world" where
  "decoded_world classifier =
     snd (decodeAndRender (run_env classifier)
            (snd (captureAndEncodeFrames (run_env classifier) encoder_world)))"

text \<open>The example run with a classifier whose request for the second sampled frame runs into the 30 second timer.\<close>

definition slow_env :: env where
  "slow_env = run_env (\<lambda>f. if frame_id f = 8
       then FetchFails (JsError ''AbortError'' ''signal is aborted without reason'')
       else env_openai example_env f)"

section \<open>Basic facts\<close>

lemmas io_defs = thn_def bnd_def ret_def throw_def modify_def

lemma for_each_close:
  "for_each fs VideoFrame_close w = (Inr (), w\<lparr>closed_frames := closed_frames w @ map frame_id fs\<rparr>)"
  by (induction fs arbitrary: w) (simp_all add: io_defs VideoFrame_close_def)

lemma for_each_stop:
  "for_each ts MediaStreamTrack_stop w = (Inr (), w\<lparr>stopped_tracks := stopped_tracks w @ map track_id ts\<rparr>)"
  by (induction ts arbitrary: w) (simp_all add: io_defs MediaStreamTrack_stop_def)

subsection \<open>What each dispose does to the store\<close>

lemma FrameCaptureService_dispose_effect:
  "FrameCaptureService_dispose w =
     (Inr (), w\<lparr>frameCaptureService :=
                  \<lparr>videoTrack = None, processor = None, reader = None, currentFrame = None,
                   isReading = False, frameUpdateLock = frameUpdateLock (frameCaptureService w)\<rparr>,
                cancelled_readers := cancelled_readers w @ option_list (reader (frameCaptureService w)),
                closed_frames := closed_frames w @ map frame_id (option_list (currentFrame (frameCaptureService w))),
                stopped_tracks := stopped_tracks w @ map track_id (option_list (videoTrack (frameCaptureService w)))\<rparr>)"
  by (simp add: FrameCaptureService_dispose_def io_defs VideoFrame_close_def MediaStreamTrack_stop_def
        option_list_def split: option.splits)

lemma VideoEncoderService_dispose_effect:
  "VideoEncoderService_dispose w = (Inr (), w\<lparr>encoderService := \<lparr>encoder = None, encodedChunks = []\<rparr>\<rparr>)"
  by (simp add: VideoEncoderService_dispose_def io_defs split: option.splits)

lemma VideoDecoderService_dispose_effect:
  "VideoDecoderService_dispose w =
     (Inr (), w\<lparr>decoderService := \<lparr>decoder = None, decodedFrames = []\<rparr>,
                closed_frames := closed_frames w @ map frame_id (decodedFrames (decoderService w))\<rparr>)"
  by (simp add: VideoDecoderService_dispose_def io_defs for_each_close split: option.splits)

lemma ScreenFlashController_dispose_effect:
  "ScreenFlashController_dispose w =
     (Inr (), case overlay (flashController w) of
                None \<Rightarrow> w
              | Some d \<Rightarrow> if parentNode d then w\<lparr>flashController := \<lparr>overlay = None\<rparr>\<rparr> else w)"
  by (simp add: ScreenFlashController_dispose_def io_defs split: option.splits)

lemma cleanup_effect: "cleanup w = (Inr (), cleanup_state w)"
  unfolding cleanup_def
  apply (simp add: thn_def bnd_def FrameCaptureService_dispose_effect VideoEncoderService_dispose_effect
      VideoDecoderService_dispose_effect ScreenFlashController_dispose_effect for_each_close)
  apply (simp add: cleanup_state_def io_defs for_each_stop split: option.splits)
  done

subsection \<open>The encoder without a codec\<close>

lemma encodeFrame_no_encoder:
  "encoder (encoderService w) = None \<Longrightarrow>
     encodeFrame frame keyFrame w = (Inl (Error ''Encoder not initialized''), w)"
  by (simp add: encodeFrame_def throw_def)

lemma flush_no_encoder:
  "encoder (encoderService w) = None \<Longrightarrow> flush env w = (Inl (Error ''Encoder not initialized''), w)"
  by (simp add: flush_def throw_def)

lemma initialize_failed_unchanged:
  "VideoEncoderService_initialize env config w = (Inl e, w') \<Longrightarrow> w' = w"
  by (auto simp: VideoEncoderService_initialize_def io_defs split: if_splits)

lemma encodeFrame_failed_unchanged:
  "encodeFrame frame keyFrame w = (Inl e, w') \<Longrightarrow> w' = w"
  by (auto simp: encodeFrame_def VideoEncoder_encode_def VideoFrame_close_def io_defs
           split: option.splits if_splits)

lemma encodeFrame_succeeded:
  "encodeFrame frame keyFrame w = (Inr u, w') \<Longrightarrow>
     closed_frames w' = closed_frames w @ [frame_id frame] \<and>
     encode_calls w' = encode_calls w @ [(frame, keyFrame)]"
  by (auto simp: encodeFrame_def VideoEncoder_encode_def VideoFrame_close_def io_defs
           split: option.splits if_splits)

subsection \<open>The capture loop\<close>

lemma same_outside_refl: "same_outside w w"
  by (simp add: same_outside_def)

lemma same_outside_trans: "same_outside w w1 \<Longrightarrow> same_outside w1 w2 \<Longrightarrow> same_outside w w2"
  by (simp add: same_outside_def)

lemma store_frame_outside: "same_outside w (store_frame v w)"
  by (simp add: same_outside_def store_frame_def Let_def split: option.splits)

lemma resume_task_outside: "same_outside w (snd (resume_task t w))"
  by (cases t) (simp_all add: resume_task_def store_frame_outside same_outside_refl)

lemma resume_tasks_outside: "same_outside w (snd (resume_tasks ts w))"
proof (induction ts arbitrary: w)
  case Nil
  show ?case by (simp add: same_outside_refl)
next
  case (Cons t ts)
  have "same_outside w (snd (resume_task t w))"
    by (rule resume_task_outside)
  moreover have "same_outside (snd (resume_task t w)) (snd (resume_tasks ts (snd (resume_task t w))))"
    by (rule Cons.IH)
  ultimately show ?case
    by (auto simp: split_beta intro: same_outside_trans)
qed

lemma readFrames_resume_outside: "same_outside w (readFrames_resume w)"
  using resume_tasks_outside [of w "reader_tasks w"]
  by (simp add: readFrames_resume_def split_beta same_outside_def)

lemma deliver_task_outside: "same_outside w (snd (deliver_task ts t w))"
  by (cases t) (simp_all add: deliver_task_def same_outside_def)

lemma deliver_tasks_outside: "same_outside w (snd (deliver_tasks ts tasks w))"
proof (induction tasks arbitrary: w)
  case Nil
  show ?case by (simp add: same_outside_refl)
next
  case (Cons t tasks)
  have "same_outside w (snd (deliver_task ts t w))"
    by (rule deliver_task_outside)
  moreover have "same_outside (snd (deliver_task ts t w)) (snd (deliver_tasks ts tasks (snd (deliver_task ts t w))))"
    by (rule Cons.IH)
  ultimately show ?case
    by (auto simp: split_beta intro: same_outside_trans)
qed

lemma frame_delivered_outside: "same_outside w (frame_delivered ts w)"
  using deliver_tasks_outside [of w ts "reader_tasks w"]
  by (simp add: frame_delivered_def split_beta same_outside_def)

lemma deliveries_outside: "same_outside w (deliveries tss lag w)"
proof (induction tss lag w rule: deliveries.induct)
  case (1 lag w)
  show ?case by (simp add: same_outside_refl)
next
  case (2 ts lag w)
  show ?case
    using frame_delivered_outside [of w ts] readFrames_resume_outside [of "frame_delivered ts w"]
    by (auto intro: same_outside_trans)
next
  case (3 ts ts' rest lag w)
  have "same_outside w (readFrames_resume (frame_delivered ts w))"
    using frame_delivered_outside [of w ts] readFrames_resume_outside [of "frame_delivered ts w"]
    by (rule same_outside_trans)
  with 3 show ?case
    by (auto intro: same_outside_trans)
qed

lemma wait_fields:
  "timers (wait env ms w) = timers w @ [ms]"
  "encode_calls (wait env ms w) = encode_calls w"
  "encodedChunks (encoderService (wait env ms w)) = encodedChunks (encoderService w)"
  "the_queue (wait env ms w) = the_queue w"
  "decoderService (wait env ms w) = decoderService w"
  "capturedFramesForValidation (wait env ms w) = capturedFramesForValidation w"
  "validationResults (wait env ms w) = validationResults w"
  "faceDetectionService (wait env ms w) = faceDetectionService w"
  "mediaStream (wait env ms w) = mediaStream w"
  "flashController (wait env ms w) = flashController w"
  "drawn (wait env ms w) = drawn w"
proof -
  let ?w0 = "w\<lparr>timers := timers w @ [ms]\<rparr>"
  let ?w1 = "deliveries (env_camera env (length (timers w))) (env_reader_lag env (length (timers w)))
                 (readFrames_resume ?w0)"
  have o: "same_outside ?w0 ?w1"
    using readFrames_resume_outside [of ?w0] deliveries_outside
    by (rule same_outside_trans)
  have e: "encoderService ?w1 = encoderService w"
    using o by (simp add: same_outside_def)
  show "timers (wait env ms w) = timers w @ [ms]"
    "encode_calls (wait env ms w) = encode_calls w"
    "decoderService (wait env ms w) = decoderService w"
    "capturedFramesForValidation (wait env ms w) = capturedFramesForValidation w"
    "validationResults (wait env ms w) = validationResults w"
    "faceDetectionService (wait env ms w) = faceDetectionService w"
    "mediaStream (wait env ms w) = mediaStream w"
    "flashController (wait env ms w) = flashController w"
    "drawn (wait env ms w) = drawn w"
    using o
    by (simp_all add: wait_def Let_def encoder_error_event_def same_outside_def split: option.splits)
  show "encodedChunks (encoderService (wait env ms w)) = encodedChunks (encoderService w)"
    "the_queue (wait env ms w) = the_queue w"
    using e
    by (simp_all add: wait_def Let_def encoder_error_event_def the_queue_def split: option.splits)
qed

lemma captureFrame_fields:
  assumes "captureFrame w = (r, w')"
  shows "timers w' = timers w" "encode_calls w' = encode_calls w" "encoderService w' = encoderService w"
    "decoderService w' = decoderService w"
    "capturedFramesForValidation w' = capturedFramesForValidation w"
    "validationResults w' = validationResults w" "faceDetectionService w' = faceDetectionService w"
    "mediaStream w' = mediaStream w" "flashController w' = flashController w" "drawn w' = drawn w"
  using assms
  by (auto simp: captureFrame_def VideoFrame_clone_def io_defs split: option.splits if_splits)

lemma setColor_fields:
  assumes "setColor c w = (r, w')"
  shows "r = Inr ()" "timers w' = timers w" "encode_calls w' = encode_calls w" "encoderService w' = encoderService w"
    "decoderService w' = decoderService w" "frameCaptureService w' = frameCaptureService w"
    "capturedFramesForValidation w' = capturedFramesForValidation w"
    "validationResults w' = validationResults w" "faceDetectionService w' = faceDetectionService w"
    "mediaStream w' = mediaStream w" "drawn w' = drawn w" "closed_frames w' = closed_frames w"
    "next_frame_id w' = next_frame_id w"
  using assms
  by (auto simp: setColor_def io_defs split: option.splits if_splits)

lemmas step_defs = capture_step_def setColor_def sleep_def captureFrame_def VideoFrame_clone_def
  encodeFrame_def VideoEncoder_encode_def VideoFrame_close_def io_defs

lemma bnd_InrE:
  assumes "bnd m f w = (Inr y, w')"
  obtains x w1 where "m w = (Inr x, w1)" and "f x w1 = (Inr y, w')"
  using assms by (auto simp: bnd_def split: prod.splits sum.splits)

lemma thn_InrE:
  assumes "thn m k w = (Inr y, w')"
  obtains w1 where "m w = (Inr (), w1)" and "k w1 = (Inr y, w')"
  using assms by (auto simp: thn_def bnd_def split: prod.splits sum.splits)

lemma sample_frame_effect:
  assumes "sample_frame i frame w = (Inr (), w')"
  shows "\<exists>copies. capturedFramesForValidation w' = capturedFramesForValidation w @ copies
                \<and> map frame_timestamp copies =
                     (if faceDetectionService w \<noteq> None \<and> i mod VALIDATION_FRAME_SAMPLING_RATE = 0
                      then [frame_timestamp frame] else [])"
    and "timers w' = timers w" "encode_calls w' = encode_calls w" "encoderService w' = encoderService w"
    "decoderService w' = decoderService w"
    "validationResults w' = validationResults w" "faceDetectionService w' = faceDetectionService w"
    "mediaStream w' = mediaStream w" "drawn w' = drawn w"
  using assms
  by (auto simp: sample_frame_def VideoFrame_clone_def io_defs split: if_splits)

lemma encodeFrame_effect:
  assumes "encodeFrame frame k w = (Inr (), w')"
  shows "encode_calls w' = encode_calls w @ [(frame, k)]"
    and "the_queue w' = the_queue w @ [(frame, k)]"
    and "encodedChunks (encoderService w') = encodedChunks (encoderService w)"
    and "timers w' = timers w" "capturedFramesForValidation w' = capturedFramesForValidation w"
    "decoderService w' = decoderService w"
    "validationResults w' = validationResults w" "faceDetectionService w' = faceDetectionService w"
    "mediaStream w' = mediaStream w" "drawn w' = drawn w"
  using assms
  by (auto simp: encodeFrame_def VideoEncoder_encode_def VideoFrame_close_def the_queue_def io_defs
           split: option.splits if_splits)

lemma capture_step_unfold:
  "capture_step env i =
     thn (setColor (if FLASH_PATTERN ! i = 0 then BLACK else WHITE))
    (thn (sleep env FLASH_DISPLAY_DELAY_MS)
    (bnd captureFrame (\<lambda>frame.
     thn (sample_frame i frame)
    (thn (encodeFrame frame (i = 0))
         (if i < FRAME_COUNT - 1
          then sleep env (FRAME_INTERVAL_MS - FLASH_DISPLAY_DELAY_MS)
          else ret ())))))"
  by (simp add: capture_step_def sample_frame_def)

lemma capture_step_effect:
  assumes "capture_step env i w = (Inr (), w')"
  shows "\<exists>frame copies.
           encode_calls w' = encode_calls w @ [(frame, i = 0)]
           \<and> the_queue w' = the_queue w @ [(frame, i = 0)]
           \<and> capturedFramesForValidation w' = capturedFramesForValidation w @ copies
           \<and> map frame_timestamp copies =
                     (if faceDetectionService w \<noteq> None \<and> i mod VALIDATION_FRAME_SAMPLING_RATE = 0
                      then [frame_timestamp frame] else [])"
    and "timers w' = timers w @ step_waits i"
    and "encodedChunks (encoderService w') = encodedChunks (encoderService w)"
    and "faceDetectionService w' = faceDetectionService w"
    and "validationResults w' = validationResults w"
    and "mediaStream w' = mediaStream w"
    and "decoderService w' = decoderService w"
    and "drawn w' = drawn w"
proof -
  from assms obtain w1 w2 frame w3 w4 w5
    where s1: "setColor (if FLASH_PATTERN ! i = 0 then BLACK else WHITE) w = (Inr (), w1)"
      and s2: "sleep env FLASH_DISPLAY_DELAY_MS w1 = (Inr (), w2)"
      and s3: "captureFrame w2 = (Inr frame, w3)"
      and s4: "sample_frame i frame w3 = (Inr (), w4)"
      and s5: "encodeFrame frame (i = 0) w4 = (Inr (), w5)"
      and s6: "(if i < FRAME_COUNT - 1
          then sleep env (FRAME_INTERVAL_MS - FLASH_DISPLAY_DELAY_MS)
          else ret ()) w5 = (Inr (), w')"
    unfolding capture_step_unfold
    by (elim thn_InrE bnd_InrE) blast
  have w2: "w2 = wait env FLASH_DISPLAY_DELAY_MS w1"
    using s2 by (simp add: sleep_def modify_def)
  have w': "w' = (if i < FRAME_COUNT - 1 then wait env (FRAME_INTERVAL_MS - FLASH_DISPLAY_DELAY_MS) w5 else w5)"
    using s6 by (simp add: sleep_def modify_def ret_def split: if_splits)
  note f1 = setColor_fields [OF s1]
  note f3 = captureFrame_fields [OF s3]
  note f4 = sample_frame_effect [OF s4]
  note f5 = encodeFrame_effect [OF s5]
  have q3: "the_queue w3 = the_queue w" "the_queue w4 = the_queue w3"
    using f1 f3 f4 by (simp_all add: the_queue_def w2 wait_fields [unfolded the_queue_def])
  from f4(1) obtain copies
    where c: "capturedFramesForValidation w4 = capturedFramesForValidation w3 @ copies"
             "map frame_timestamp copies =
                     (if faceDetectionService w3 \<noteq> None \<and> i mod VALIDATION_FRAME_SAMPLING_RATE = 0
                      then [frame_timestamp frame] else [])"
    by blast
  have "encode_calls w' = encode_calls w @ [(frame, i = 0)]"
    using f1 f3 f4 f5 by (simp add: w' w2 wait_fields)
  moreover have "the_queue w' = the_queue w @ [(frame, i = 0)]"
    using q3 f5 by (simp add: w' wait_fields)
  moreover have "capturedFramesForValidation w' = capturedFramesForValidation w @ copies"
    using f1 f3 f5 c by (simp add: w' w2 wait_fields)
  moreover have "map frame_timestamp copies =
                     (if faceDetectionService w \<noteq> None \<and> i mod VALIDATION_FRAME_SAMPLING_RATE = 0
                      then [frame_timestamp frame] else [])"
    using f1 f3 c by (simp add: w2 wait_fields)
  ultimately show "\<exists>frame copies.
           encode_calls w' = encode_calls w @ [(frame, i = 0)]
           \<and> the_queue w' = the_queue w @ [(frame, i = 0)]
           \<and> capturedFramesForValidation w' = capturedFramesForValidation w @ copies
           \<and> map frame_timestamp copies =
                     (if faceDetectionService w \<noteq> None \<and> i mod VALIDATION_FRAME_SAMPLING_RATE = 0
                      then [frame_timestamp frame] else [])"
    by blast
  show "timers w' = timers w @ step_waits i"
    using f1 f3 f4 f5 by (simp add: w' w2 wait_fields step_waits_def)
  show "encodedChunks (encoderService w') = encodedChunks (encoderService w)"
    using f1 f3 f4 f5 by (simp add: w' w2 wait_fields)
  show "faceDetectionService w' = faceDetectionService w"
    using f1 f3 f4 f5 by (simp add: w' w2 wait_fields)
  show "validationResults w' = validationResults w"
    using f1 f3 f4 f5 by (simp add: w' w2 wait_fields)
  show "mediaStream w' = mediaStream w"
    using f1 f3 f4 f5 by (simp add: w' w2 wait_fields)
  show "decoderService w' = decoderService w"
    using f1 f3 f4 f5 by (simp add: w' w2 wait_fields)
  show "drawn w' = drawn w"
    using f1 f3 f4 f5 by (simp add: w' w2 wait_fields)
qed

lemma capture_loop_effect:
  "for_each is (capture_step env) w = (Inr (), w') \<Longrightarrow>
     (\<exists>frames copies. length frames = length is
        \<and> encode_calls w' = encode_calls w @ zip frames (map (\<lambda>i. i = 0) is)
        \<and> the_queue w' = the_queue w @ zip frames (map (\<lambda>i. i = 0) is)
        \<and> capturedFramesForValidation w' = capturedFramesForValidation w @ copies
        \<and> map frame_timestamp copies = map (frame_timestamp \<circ> fst) (filter (sampled w) (zip frames is)))
     \<and> timers w' = timers w @ concat (map step_waits is)
     \<and> encodedChunks (encoderService w') = encodedChunks (encoderService w)
     \<and> faceDetectionService w' = faceDetectionService w
     \<and> validationResults w' = validationResults w
     \<and> mediaStream w' = mediaStream w
     \<and> decoderService w' = decoderService w
     \<and> drawn w' = drawn w"
proof (induction "is" arbitrary: w)
  case Nil
  then show ?case by (simp add: ret_def)
next
  case (Cons i "is")
  from Cons.prems obtain w1
    where step: "capture_step env i w = (Inr (), w1)"
      and rest: "for_each is (capture_step env) w1 = (Inr (), w')"
    by (auto elim: thn_InrE)
  note e = capture_step_effect [OF step]
  note ih = Cons.IH [OF rest]
  from e(1) obtain frame copies
    where a: "encode_calls w1 = encode_calls w @ [(frame, i = 0)]"
             "the_queue w1 = the_queue w @ [(frame, i = 0)]"
             "capturedFramesForValidation w1 = capturedFramesForValidation w @ copies"
             "map frame_timestamp copies = (if sampled w (frame, i) then [frame_timestamp frame] else [])"
    unfolding sampled_def by auto
  from ih obtain frames copies'
    where b: "length frames = length is"
             "encode_calls w' = encode_calls w1 @ zip frames (map (\<lambda>i. i = 0) is)"
             "the_queue w' = the_queue w1 @ zip frames (map (\<lambda>i. i = 0) is)"
             "capturedFramesForValidation w' = capturedFramesForValidation w1 @ copies'"
             "map frame_timestamp copies' = map (frame_timestamp \<circ> fst) (filter (sampled w1) (zip frames is))"
    by blast
  have s: "sampled w1 = sampled w"
    using e(4) by (simp add: sampled_def fun_eq_iff)
  have "length (frame # frames) = length (i # is)"
    using b(1) by simp
  moreover have "encode_calls w' = encode_calls w @ zip (frame # frames) (map (\<lambda>i. i = 0) (i # is))"
    using a(1) b(2) by simp
  moreover have "the_queue w' = the_queue w @ zip (frame # frames) (map (\<lambda>i. i = 0) (i # is))"
    using a(2) b(3) by simp
  moreover have "capturedFramesForValidation w' = capturedFramesForValidation w @ (copies @ copies')"
    using a(3) b(4) by simp
  moreover have "map frame_timestamp (copies @ copies')
      = map (frame_timestamp \<circ> fst) (filter (sampled w) (zip (frame # frames) (i # is)))"
    using a(4) b(5) s by simp
  ultimately have ex: "\<exists>frames copies. length frames = length (i # is)
        \<and> encode_calls w' = encode_calls w @ zip frames (map (\<lambda>i. i = 0) (i # is))
        \<and> the_queue w' = the_queue w @ zip frames (map (\<lambda>i. i = 0) (i # is))
        \<and> capturedFramesForValidation w' = capturedFramesForValidation w @ copies
        \<and> map frame_timestamp copies = map (frame_timestamp \<circ> fst) (filter (sampled w) (zip frames (i # is)))"
    by blast
  have t: "timers w' = timers w @ concat (map step_waits (i # is))"
    using e(2) ih by simp
  have k: "encodedChunks (encoderService w') = encodedChunks (encoderService w)"
    "faceDetectionService w' = faceDetectionService w"
    "validationResults w' = validationResults w"
    "mediaStream w' = mediaStream w"
    "decoderService w' = decoderService w"
    "drawn w' = drawn w"
    using e ih by simp_all
  from ex t k show ?case by blast
qed

subsection \<open>The capture sequence as a whole\<close>

lemma for_each_handle:
  "for_each q (\<lambda>fk. handleEncodedChunk (encoder_output env fk)) w =
     (Inr (), w\<lparr>encoderService := (encoderService w)\<lparr>encodedChunks :=
                  encodedChunks (encoderService w) @ map (chunk_of env) q\<rparr>\<rparr>)"
  by (induction q arbitrary: w) (simp_all add: io_defs handleEncodedChunk_def chunk_of_def)

lemma flush_effect:
  assumes "flush env w = (Inr (), w')"
  shows "encodedChunks (encoderService w') = encodedChunks (encoderService w) @ map (chunk_of env) (the_queue w)"
    and "timers w' = timers w" "encode_calls w' = encode_calls w"
    "capturedFramesForValidation w' = capturedFramesForValidation w"
    "decoderService w' = decoderService w"
    "validationResults w' = validationResults w" "faceDetectionService w' = faceDetectionService w"
    "mediaStream w' = mediaStream w" "drawn w' = drawn w"
  using assms
  by (auto simp: flush_def VideoEncoder_flush_def for_each_handle the_queue_def io_defs
           split: option.splits if_splits)

lemma show_overlay_fields:
  assumes "show_overlay w = (r, w')"
  shows "r = Inr ()" "timers w' = timers w" "encode_calls w' = encode_calls w" "encoderService w' = encoderService w"
    "decoderService w' = decoderService w" "frameCaptureService w' = frameCaptureService w"
    "capturedFramesForValidation w' = capturedFramesForValidation w"
    "validationResults w' = validationResults w" "faceDetectionService w' = faceDetectionService w"
    "mediaStream w' = mediaStream w" "drawn w' = drawn w"
  using assms
  by (auto simp: show_overlay_def io_defs split: option.splits if_splits)

lemma hide_overlay_fields:
  assumes "hide_overlay w = (r, w')"
  shows "r = Inr ()" "timers w' = timers w" "encode_calls w' = encode_calls w" "encoderService w' = encoderService w"
    "decoderService w' = decoderService w" "frameCaptureService w' = frameCaptureService w"
    "capturedFramesForValidation w' = capturedFramesForValidation w"
    "validationResults w' = validationResults w" "faceDetectionService w' = faceDetectionService w"
    "mediaStream w' = mediaStream w" "drawn w' = drawn w"
  using assms
  by (auto simp: hide_overlay_def io_defs split: option.splits if_splits)

lemma captureAndEncodeFrames_effect:
  assumes "captureAndEncodeFrames env w = (Inr (), w')"
  shows "\<exists>frames. length frames = FRAME_COUNT
           \<and> encode_calls w' = encode_calls w @ zip frames key_flags
           \<and> encodedChunks (encoderService w') =
               encodedChunks (encoderService w) @ map (chunk_of env) (the_queue w @ zip frames key_flags)
           \<and> map frame_timestamp (capturedFramesForValidation w') =
               map (frame_timestamp \<circ> fst) (filter (sampled w) (zip frames [0..<FRAME_COUNT]))"
    and "timers w' = timers w @ capture_waits"
    and "faceDetectionService w' = faceDetectionService w"
    and "validationResults w' = validationResults w"
    and "mediaStream w' = mediaStream w"
    and "decoderService w' = decoderService w"
    and "drawn w' = drawn w"
proof -
  from assms obtain w1 w2 w3 w4
    where s1: "show_overlay w = (Inr (), w1)"
      and s2: "modify (\<lambda>w. w\<lparr>capturedFramesForValidation := []\<rparr>) w1 = (Inr (), w2)"
      and s3: "for_each [0..<FRAME_COUNT] (capture_step env) w2 = (Inr (), w3)"
      and s4: "hide_overlay w3 = (Inr (), w4)"
      and s5: "flush env w4 = (Inr (), w')"
    unfolding captureAndEncodeFrames_def
    by (elim thn_InrE) blast
  have w2: "w2 = w1\<lparr>capturedFramesForValidation := []\<rparr>"
    using s2 by (simp add: modify_def)
  note f1 = show_overlay_fields [OF s1]
  note f3 = capture_loop_effect [OF s3]
  note f4 = hide_overlay_fields [OF s4]
  note f5 = flush_effect [OF s5]
  have sw: "sampled w2 = sampled w"
    using f1 by (simp add: sampled_def fun_eq_iff w2)
  have q2: "the_queue w2 = the_queue w" "the_queue w4 = the_queue w3"
    using f1 f4 by (simp_all add: the_queue_def w2)
  from f3 obtain frames copies
    where a: "length frames = length [0..<FRAME_COUNT]"
             "encode_calls w3 = encode_calls w2 @ zip frames (map (\<lambda>i. i = 0) [0..<FRAME_COUNT])"
             "the_queue w3 = the_queue w2 @ zip frames (map (\<lambda>i. i = 0) [0..<FRAME_COUNT])"
             "capturedFramesForValidation w3 = capturedFramesForValidation w2 @ copies"
             "map frame_timestamp copies = map (frame_timestamp \<circ> fst) (filter (sampled w2) (zip frames [0..<FRAME_COUNT]))"
    by blast
  have "length frames = FRAME_COUNT"
    using a(1) by simp
  moreover have "encode_calls w' = encode_calls w @ zip frames key_flags"
    using a(2) f1 f4 f5 by (simp add: w2 key_flags_def)
  moreover have "encodedChunks (encoderService w') =
               encodedChunks (encoderService w) @ map (chunk_of env) (the_queue w @ zip frames key_flags)"
    using a(3) f1 f3 f4 f5 q2 by (simp add: w2 key_flags_def)
  moreover have "map frame_timestamp (capturedFramesForValidation w') =
               map (frame_timestamp \<circ> fst) (filter (sampled w) (zip frames [0..<FRAME_COUNT]))"
    using a(4) a(5) f4 f5 sw by (simp add: w2)
  ultimately show "\<exists>frames. length frames = FRAME_COUNT
           \<and> encode_calls w' = encode_calls w @ zip frames key_flags
           \<and> encodedChunks (encoderService w') =
               encodedChunks (encoderService w) @ map (chunk_of env) (the_queue w @ zip frames key_flags)
           \<and> map frame_timestamp (capturedFramesForValidation w') =
               map (frame_timestamp \<circ> fst) (filter (sampled w) (zip frames [0..<FRAME_COUNT]))"
    by blast
  show "timers w' = timers w @ capture_waits"
    using f1 f3 f4 f5 by (simp add: w2 capture_waits_def)
  show "faceDetectionService w' = faceDetectionService w"
    using f1 f3 f4 f5 by (simp add: w2)
  show "validationResults w' = validationResults w"
    using f1 f3 f4 f5 by (simp add: w2)
  show "mediaStream w' = mediaStream w"
    using f1 f3 f4 f5 by (simp add: w2)
  show "decoderService w' = decoderService w"
    using f1 f3 f4 f5 by (simp add: w2)
  show "drawn w' = drawn w"
    using f1 f3 f4 f5 by (simp add: w2)
qed

lemma upt20: "[0..<20] = [0,1,2,3,4,5,6,7,8,9,10,11,12,13,14,15,16,17,18,19::nat]"
  by (simp add: upt_rec)

lemma capture_waits_value:
  "sum_list capture_waits = 9550"
  "length capture_waits = 39"
  "length (filter (\<lambda>t. t = FLASH_DISPLAY_DELAY_MS) capture_waits) = 20"
  by (simp_all add: capture_waits_def step_waits_def FRAME_COUNT_def FRAME_INTERVAL_MS_def
        FLASH_DISPLAY_DELAY_MS_def TOTAL_DURATION_MS_def upt20)

subsection \<open>The decoding phase leaves the sampled frames alone\<close>

lemma kept_refl: "kept w w"
  by (simp add: kept_def)

lemma kept_trans: "kept w w1 \<Longrightarrow> kept w1 w2 \<Longrightarrow> kept w w2"
  by (simp add: kept_def)

lemma keepsD: "keeps m \<Longrightarrow> m w = (r, w') \<Longrightarrow> kept w w'"
  by (auto simp: keeps_def dest: spec [of _ w])

lemma keeps_ret: "keeps (ret x)"
  by (simp add: keeps_def ret_def kept_refl)

lemma keeps_throw: "keeps (throw e)"
  by (simp add: keeps_def throw_def kept_refl)

lemma keeps_modify: "(\<And>w. kept w (f w)) \<Longrightarrow> keeps (modify f)"
  by (simp add: keeps_def modify_def)

lemma keeps_bnd: "keeps m \<Longrightarrow> (\<And>x. keeps (f x)) \<Longrightarrow> keeps (bnd m f)"
  unfolding keeps_def bnd_def
proof (intro allI)
  fix w
  assume m: "\<forall>w. kept w (snd (m w))" and f: "\<And>x. \<forall>w. kept w (snd (f x w))"
  show "kept w (snd (case m w of (Inl e, w') \<Rightarrow> (Inl e, w') | (Inr x, w') \<Rightarrow> f x w'))"
  proof (cases "m w")
    case (Pair r w1)
    with m have k1: "kept w w1" by (metis snd_conv)
    show ?thesis
    proof (cases r)
      case (Inl e)
      with Pair k1 show ?thesis by simp
    next
      case (Inr x)
      from f [of x] have "kept w1 (snd (f x w1))" by blast
      with Pair Inr k1 show ?thesis by (simp add: kept_trans)
    qed
  qed
qed

lemma keeps_thn: "keeps m \<Longrightarrow> keeps k \<Longrightarrow> keeps (thn m k)"
  by (simp add: thn_def keeps_bnd)

lemma keeps_for_each: "(\<And>x. keeps (body x)) \<Longrightarrow> keeps (for_each xs body)"
  by (induction xs) (simp_all add: keeps_ret keeps_thn)

lemma keepsI: "(\<And>w. kept w (snd (m w))) \<Longrightarrow> keeps m"
  by (simp add: keeps_def)

lemma keeps_app: "keeps m \<Longrightarrow> kept w (snd (m w))"
  by (simp add: keeps_def)

lemma keeps_if: "keeps a \<Longrightarrow> keeps b \<Longrightarrow> keeps (if c then a else b)"
  by simp

lemma kept_wait: "kept w (wait env ms w)"
  by (simp add: kept_def wait_fields)

lemma keeps_sleep: "keeps (sleep env ms)"
  by (simp add: sleep_def keeps_modify kept_wait)

lemma keeps_close: "keeps (VideoFrame_close f)"
  by (simp add: VideoFrame_close_def keeps_modify kept_def)

lemma keeps_drawImage: "keeps (drawImage f)"
  by (simp add: drawImage_def keeps_modify kept_def)

lemma keeps_decoder_output: "keeps (decoder_output c)"
  by (simp add: decoder_output_def keeps_modify kept_def)

lemma keeps_decode: "keeps (VideoDecoder_decode c)"
  by (rule keepsI) (simp add: VideoDecoder_decode_def io_defs kept_def split: option.splits)

lemma keeps_decoder_flush: "keeps VideoDecoder_flush"
proof (rule keepsI)
  fix w
  show "kept w (snd (VideoDecoder_flush w))"
  proof (cases "decoder (decoderService w)")
    case None
    then show ?thesis by (simp add: VideoDecoder_flush_def throw_def kept_refl)
  next
    case (Some d)
    have "keeps (thn (modify (\<lambda>w. w\<lparr>decoderService := (decoderService w)\<lparr>decoder :=
                      Some (d\<lparr>dec_queue := [], dec_key_required := True\<rparr>)\<rparr>\<rparr>))
                   (for_each (dec_queue d) decoder_output))"
      by (intro keeps_thn keeps_for_each keeps_modify keeps_decoder_output) (simp add: kept_def)
    with Some show ?thesis
      by (simp add: VideoDecoder_flush_def throw_def kept_refl keeps_app)
  qed
qed

lemma keeps_renderFrames: "keeps (renderFrames env)"
proof (rule keepsI)
  fix w :: world
  let ?frames = "decodedFrames (decoderService w)"
  have "keeps (thn (for_each [0..<length ?frames] (\<lambda>i.
                   thn (drawImage (?frames ! i))
                  (thn (if i < length ?frames - 1 then sleep env FRAME_PLAYBACK_INTERVAL_MS else ret ())
                       (VideoFrame_close (?frames ! i)))))
                (modify (\<lambda>w. w\<lparr>decoderService := (decoderService w)\<lparr>decodedFrames := []\<rparr>\<rparr>)))"
    by (intro keeps_thn keeps_for_each keeps_modify keeps_drawImage keeps_close keeps_if
          keeps_sleep keeps_ret) (simp add: kept_def)
  then show "kept w (snd (renderFrames env w))"
    by (simp add: renderFrames_def Let_def throw_def ret_def kept_refl keeps_app)
qed

lemma keeps_decoder_initialize: "keeps (VideoDecoderService_initialize env codec wd ht)"
  unfolding VideoDecoderService_initialize_def
  by (intro keeps_if keeps_throw keeps_thn keeps_modify) (simp_all add: kept_def)

lemma keeps_decoder_decodeAndRender: "keeps (VideoDecoderService_decodeAndRender env chunks)"
proof (rule keepsI)
  fix w
  have "keeps (thn (for_each chunks (\<lambda>chunk. VideoDecoder_decode (ec_data chunk)))
         (thn VideoDecoder_flush (renderFrames env)))"
    by (intro keeps_thn keeps_for_each keeps_decode keeps_decoder_flush keeps_renderFrames)
  then show "kept w (snd (VideoDecoderService_decodeAndRender env chunks w))"
    by (simp add: VideoDecoderService_decodeAndRender_def throw_def kept_refl keeps_app
             split: option.splits)
qed

lemma keeps_videoTrack_settings: "keeps videoTrack_settings"
  by (rule keepsI)
     (simp add: videoTrack_settings_def throw_def ret_def kept_refl split: option.splits list.splits)

lemma keeps_decodeAndRender: "keeps (decodeAndRender env)"
proof (rule keepsI)
  fix w
  have "keeps (bnd videoTrack_settings (\<lambda>settings.
           thn (VideoDecoderService_initialize env ''vp8''
                  (or_default (settings_width settings) 1280)
                  (or_default (settings_height settings) 720))
               (VideoDecoderService_decodeAndRender env (getEncodedChunks w))))"
    by (intro keeps_bnd keeps_thn keeps_videoTrack_settings keeps_decoder_initialize
          keeps_decoder_decodeAndRender)
  then show "kept w (snd (decodeAndRender env w))"
    by (simp add: decodeAndRender_def Let_def throw_def kept_refl keeps_app)
qed

subsection \<open>A read that resolved before dispose\<close>



subsection \<open>The examples, evaluated\<close>

lemma encodeFrame_configured_world:
  "encodeFrame example_frame True configured_world =
     (Inr (), configured_world\<lparr>encoderService :=
        (encoderService configured_world)\<lparr>encoder := Some \<lparr>enc_state = st_configured, enc_queue = [(example_frame, True)]\<rparr>\<rparr>,
        encode_calls := [(example_frame, True)], closed_frames := [1]\<rparr>)"
  by (simp add: configured_world_def new_world_def example_frame_def encodeFrame_def
        VideoEncoder_encode_def VideoFrame_close_def is_closed_def io_defs)

subsection \<open>The example run\<close>

lemma camera_world_reached:
  "initializeCamera (run_env classifier) (new_world (Some example_service)) = (Inr (), camera_world)"
  by (simp add: initializeCamera_def FrameCaptureService_initialize_def waitForFirstFrame_def io_defs
        run_env_def example_env_def new_world_def camera_world_def example_track_def
        waitForFirstFrame_loop.simps [of _ 0] waitForFirstFrame_loop.simps [of _ 50]
        FIRST_FRAME_TIMEOUT_MS_def FIRST_FRAME_POLL_INTERVAL_MS_def
        wait_def readFrames_resume_def resume_task_def frame_delivered_def deliver_task_def
        store_frame_def loop_head_def)

lemma encoder_world_reached:
  "initializeEncoder (run_env classifier) camera_world = (Inr (), encoder_world)"
  by (simp add: initializeEncoder_def videoTrack_settings_def VideoEncoderService_initialize_def
        camera_world_def encoder_world_def new_world_def run_env_def example_env_def example_track_def
        or_default_def io_defs)

lemma capture_returns:
  "fst (captureAndEncodeFrames (run_env classifier) encoder_world) = Inr ()"
  by (simp add: captureAndEncodeFrames_def show_overlay_def hide_overlay_def flush_def VideoEncoder_flush_def
        handleEncodedChunk_def encoder_output_def upt20 encoder_world_def camera_world_def
        example_service_def example_track_def run_env_def
        new_world_def createOverlay_def example_env_def capture_step_def
        setColor_def sleep_def wait_def readFrames_resume_def resume_task_def captureFrame_def
        VideoFrame_clone_def encodeFrame_def VideoEncoder_encode_def VideoFrame_close_def is_closed_def
        FLASH_PATTERN_def FRAME_COUNT_def FRAME_INTERVAL_MS_def FLASH_DISPLAY_DELAY_MS_def TOTAL_DURATION_MS_def
        VALIDATION_FRAME_SAMPLING_RATE_def encoder_error_event_def io_defs)

subsection \<open>The decoding phase returns\<close>

lemma returnsD: "returns m \<Longrightarrow> fst (m w) = Inr ()"
  by (simp add: returns_def)

lemma returns_ret: "returns (ret ())"
  by (simp add: returns_def ret_def)

lemma returns_modify: "returns (modify f)"
  by (simp add: returns_def modify_def)

lemma returns_thn: "returns m \<Longrightarrow> returns k \<Longrightarrow> returns (thn m k)"
proof -
  assume m: "returns m" and k: "returns k"
  show ?thesis
    unfolding returns_def
  proof
    fix w
    from m have "fst (m w) = Inr ()" by (rule returnsD)
    then obtain w1 where "m w = (Inr (), w1)" by (cases "m w") simp
    moreover from k have "fst (k w1) = Inr ()" by (rule returnsD)
    ultimately show "fst (thn m k w) = Inr ()" by (simp add: thn_def bnd_def)
  qed
qed

lemma returns_for_each: "(\<And>x. returns (body x)) \<Longrightarrow> returns (for_each xs body)"
  by (induction xs) (simp_all add: returns_ret returns_thn)

lemma returns_if: "returns a \<Longrightarrow> returns b \<Longrightarrow> returns (if c then a else b)"
  by simp

lemma returns_sleep: "returns (sleep env ms)"
  by (simp add: sleep_def returns_modify)

lemma returns_close: "returns (VideoFrame_close f)"
  by (simp add: VideoFrame_close_def returns_modify)

lemma returns_drawImage: "returns (drawImage f)"
  by (simp add: drawImage_def returns_modify)

lemma returns_decoder_output: "returns (decoder_output c)"
  by (simp add: decoder_output_def returns_modify)

lemma renderFrames_returns:
  assumes "env_canvas_context env"
  shows "fst (renderFrames env w) = Inr ()"
proof -
  let ?frames = "decodedFrames (decoderService w)"
  have "returns (thn (for_each [0..<length ?frames] (\<lambda>i.
                   thn (drawImage (?frames ! i))
                  (thn (if i < length ?frames - 1 then sleep env FRAME_PLAYBACK_INTERVAL_MS else ret ())
                       (VideoFrame_close (?frames ! i)))))
                (modify (\<lambda>w. w\<lparr>decoderService := (decoderService w)\<lparr>decodedFrames := []\<rparr>\<rparr>)))"
    by (intro returns_thn returns_for_each returns_modify returns_drawImage returns_close returns_if
          returns_sleep returns_ret)
  with assms show ?thesis
    by (simp add: renderFrames_def Let_def ret_def returnsD)
qed

lemma decode_loop:
  "decoder (decoderService w) = Some d \<Longrightarrow> dec_state d = st_configured \<Longrightarrow>
   (dec_key_required d \<longrightarrow> chunks = [] \<or> chunk_type (ec_data (hd chunks)) = key) \<Longrightarrow>
   \<exists>d'. for_each chunks (\<lambda>c. VideoDecoder_decode (ec_data c)) w
          = (Inr (), w\<lparr>decoderService := (decoderService w)\<lparr>decoder := Some d'\<rparr>\<rparr>)
        \<and> dec_state d' = st_configured"
proof (induction chunks arbitrary: w d)
  case Nil
  then show ?case
    by (intro exI [of _ d]) (simp add: ret_def)
next
  case (Cons c cs)
  let ?d1 = "d\<lparr>dec_queue := dec_queue d @ [ec_data c], dec_key_required := False\<rparr>"
  let ?w1 = "w\<lparr>decoderService := (decoderService w)\<lparr>decoder := Some ?d1\<rparr>\<rparr>"
  have step: "VideoDecoder_decode (ec_data c) w = (Inr (), ?w1)"
    using Cons.prems by (simp add: VideoDecoder_decode_def io_defs)
  have "decoder (decoderService ?w1) = Some ?d1" "dec_state ?d1 = st_configured"
    "dec_key_required ?d1 \<longrightarrow> cs = [] \<or> chunk_type (ec_data (hd cs)) = key"
    using Cons.prems by simp_all
  from Cons.IH [OF this] obtain d'
    where "for_each cs (\<lambda>c. VideoDecoder_decode (ec_data c)) ?w1
          = (Inr (), ?w1\<lparr>decoderService := (decoderService ?w1)\<lparr>decoder := Some d'\<rparr>\<rparr>)"
      and "dec_state d' = st_configured"
    by auto
  with step show ?case
    by (intro exI [of _ d']) (simp add: thn_def bnd_def)
qed

lemma decoder_flush_returns:
  assumes "decoder (decoderService w) = Some d" "dec_state d = st_configured"
  shows "fst (VideoDecoder_flush w) = Inr ()"
proof -
  have "returns (thn (modify (\<lambda>w. w\<lparr>decoderService := (decoderService w)\<lparr>decoder :=
                      Some (d\<lparr>dec_queue := [], dec_key_required := True\<rparr>)\<rparr>\<rparr>))
                   (for_each (dec_queue d) decoder_output))"
    by (intro returns_thn returns_for_each returns_modify returns_decoder_output)
  with assms show ?thesis
    by (simp add: VideoDecoder_flush_def returnsD)
qed

lemma thn_returns_both:
  "m w = (Inr (), w1) \<Longrightarrow> fst (k w1) = Inr y \<Longrightarrow> fst (thn m k w) = Inr y"
  by (simp add: thn_def bnd_def)

lemma decoder_decodeAndRender_returns:
  assumes "decoder (decoderService w) = Some d" "dec_state d = st_configured"
    and "dec_key_required d \<longrightarrow> chunks = [] \<or> chunk_type (ec_data (hd chunks)) = key"
    and "env_canvas_context env"
  shows "fst (VideoDecoderService_decodeAndRender env chunks w) = Inr ()"
proof -
  from decode_loop [OF assms(1,2,3)] obtain d'
    where l: "for_each chunks (\<lambda>c. VideoDecoder_decode (ec_data c)) w
          = (Inr (), w\<lparr>decoderService := (decoderService w)\<lparr>decoder := Some d'\<rparr>\<rparr>)"
      and d': "dec_state d' = st_configured"
    by blast
  let ?w1 = "w\<lparr>decoderService := (decoderService w)\<lparr>decoder := Some d'\<rparr>\<rparr>"
  have "decoder (decoderService ?w1) = Some d'" by simp
  from decoder_flush_returns [OF this d'] obtain w2
    where f: "VideoDecoder_flush ?w1 = (Inr (), w2)"
    by (cases "VideoDecoder_flush ?w1") simp
  have "fst (thn VideoDecoder_flush (renderFrames env) ?w1) = Inr ()"
    using f renderFrames_returns [OF assms(4), of w2] by (simp add: thn_def bnd_def)
  with l assms(1) show ?thesis
    by (simp add: VideoDecoderService_decodeAndRender_def thn_returns_both)
qed

lemma decodeAndRender_returns:
  assumes "getEncodedChunks w \<noteq> []"
    and "chunk_type (ec_data (hd (getEncodedChunks w))) = key"
    and "mediaStream w = Some (track # tracks)"
    and "env_decoder_supported env ''vp8'' (or_default (settings_width track) 1280)
           (or_default (settings_height track) 720)"
    and "env_canvas_context env"
  shows "fst (decodeAndRender env w) = Inr ()"
proof -
  let ?d = "\<lparr>dec_state = st_configured, dec_queue = [], dec_key_required = True\<rparr>"
  let ?w1 = "w\<lparr>decoderService := \<lparr>decoder = Some ?d, decodedFrames = []\<rparr>\<rparr>"
  have i: "VideoDecoderService_initialize env ''vp8'' (or_default (settings_width track) 1280)
           (or_default (settings_height track) 720) w = (Inr (), ?w1)"
    using assms(4) by (simp add: VideoDecoderService_initialize_def io_defs)
  have "fst (VideoDecoderService_decodeAndRender env (getEncodedChunks w) ?w1) = Inr ()"
    by (rule decoder_decodeAndRender_returns [of _ ?d]) (use assms in simp_all)
  with i assms(1,3) show ?thesis
    by (simp add: decodeAndRender_def Let_def videoTrack_settings_def bnd_def ret_def thn_returns_both)
qed

subsection \<open>The guards of the decoder\<close>







subsection \<open>The waits and the chunks of the capture sequence\<close>

lemma run_env_example: "run_env (env_openai example_env) = example_env"
  by (simp add: run_env_def)

lemma capture_example:
  "captureAndEncodeFrames example_env encoder_world
     = (Inr (), snd (captureAndEncodeFrames example_env encoder_world))"
proof -
  have "fst (captureAndEncodeFrames example_env encoder_world) = Inr ()"
    using capture_returns [of "env_openai example_env"] by (simp only: run_env_example)
  then show ?thesis
    by (cases "captureAndEncodeFrames example_env encoder_world") simp
qed

lemma capture_example_fst: "fst (captureAndEncodeFrames example_env encoder_world) = Inr ()"
  using capture_returns [of "env_openai example_env"] by (simp only: run_env_example)

lemma key_flags_value: "key_flags = True # replicate 19 False"
  by (simp add: key_flags_def FRAME_COUNT_def upt20 eval_nat_numeral)

lemma key_flags_length: "length key_flags = FRAME_COUNT"
  by (simp add: key_flags_def)

lemma capture_waits_list:
  "capture_waits = [50, 450, 50, 450, 50, 450, 50, 450, 50, 450, 50, 450, 50, 450, 50, 450,
                    50, 450, 50, 450, 50, 450, 50, 450, 50, 450, 50, 450, 50, 450, 50, 450,
                    50, 450, 50, 450, 50, 450, 50]"
  by (simp add: capture_waits_def step_waits_def FRAME_COUNT_def FRAME_INTERVAL_MS_def
        FLASH_DISPLAY_DELAY_MS_def TOTAL_DURATION_MS_def upt20)

lemma initializeEncoder_effect:
  assumes "initializeEncoder env w = (Inr (), w')"
  shows "encoderService w' = \<lparr>encoder = Some \<lparr>enc_state = st_configured, enc_queue = []\<rparr>, encodedChunks = []\<rparr>"
    and "encode_calls w' = encode_calls w" "faceDetectionService w' = faceDetectionService w"
    and "mediaStream w' = mediaStream w"
  using assms
  by (auto simp: initializeEncoder_def videoTrack_settings_def VideoEncoderService_initialize_def io_defs
           split: option.splits list.splits if_splits)

subsection \<open>Sampling and validation\<close>

lemma zip_upt_nth: "length xs = n \<Longrightarrow> zip xs [0..<n] = map (\<lambda>i. (xs ! i, i)) [0..<n]"
  by (rule nth_equalityI) simp_all

lemma sampled_positions:
  assumes "length frames = FRAME_COUNT" and "faceDetectionService w \<noteq> None"
  shows "filter (sampled w) (zip frames [0..<FRAME_COUNT]) = map (\<lambda>i. (frames ! i, i)) [0, 5, 10, 15]"
proof -
  have "filter (sampled w) (zip frames [0..<FRAME_COUNT])
          = map (\<lambda>i. (frames ! i, i)) (filter (\<lambda>i. i mod 5 = 0) [0..<FRAME_COUNT])"
    using assms
    by (simp add: zip_upt_nth filter_map comp_def sampled_def VALIDATION_FRAME_SAMPLING_RATE_def)
  also have "filter (\<lambda>i. i mod 5 = 0) [0..<FRAME_COUNT] = [0, 5, 10, 15::nat]"
    by (simp add: FRAME_COUNT_def upt20)
  finally show ?thesis .
qed

lemma detectionResult_valid:
  "detectionResult j = Inr r \<Longrightarrow> isValid r = (hasFace r \<and> isFacingCamera r)"
  by (auto simp: detectionResult_def split: json.splits option.splits bool.splits)

lemma analyzeFrame_catch_valid:
  "analyzeFrame_catch e = Inr r \<Longrightarrow> isValid r = (hasFace r \<and> isFacingCamera r)"
  by (auto simp: analyzeFrame_catch_def Let_def split: if_splits)

lemma analyzeFrame_try_valid:
  "analyzeFrame_try env f = Inr r \<Longrightarrow> isValid r = (hasFace r \<and> isFacingCamera r)"
  by (auto simp: analyzeFrame_try_def dest: detectionResult_valid
           split: api_outcome.splits sum.splits option.splits)

lemma outcome_valid:
  "analyzeFrame_outcome env service f = Inr r \<Longrightarrow> isValid r = (hasFace r \<and> isFacingCamera r)"
  by (auto simp: analyzeFrame_outcome_def dest: analyzeFrame_try_valid analyzeFrame_catch_valid
           split: if_splits sum.splits)

lemma validate_step_effect:
  "validate_step env service f w =
     (case analyzeFrame_outcome env service f of
        Inl e \<Rightarrow> (Inl e, w)
      | Inr r \<Rightarrow> (Inr (), w\<lparr>validationResults := validationResults w @ [r],
                             closed_frames := closed_frames w @ [frame_id f]\<rparr>))"
  by (simp add: validate_step_def analyzeFrame_def VideoFrame_close_def io_defs split: sum.splits)

lemma validate_loop:
  "for_each fs (validate_step env service) w = (r, w') \<Longrightarrow>
     (case r of
        Inl e \<Rightarrow> \<exists>f \<in> set fs. analyzeFrame_outcome env service f = Inl e
      | Inr u \<Rightarrow> \<exists>rs. map Inr rs = map (analyzeFrame_outcome env service) fs
                    \<and> w' = w\<lparr>validationResults := validationResults w @ rs,
                             closed_frames := closed_frames w @ map frame_id fs\<rparr>)"
proof (induction fs arbitrary: w)
  case Nil
  then show ?case by (auto simp: ret_def)
next
  case (Cons f fs)
  show ?case
  proof (cases "analyzeFrame_outcome env service f")
    case (Inl e)
    then have step: "validate_step env service f w = (Inl e, w)"
      by (simp add: validate_step_effect)
    from Cons.prems have "r = Inl e"
      by (simp add: thn_def bnd_def step)
    with Inl show ?thesis by simp
  next
    case (Inr res)
    let ?w1 = "w\<lparr>validationResults := validationResults w @ [res],
                  closed_frames := closed_frames w @ [frame_id f]\<rparr>"
    have step: "validate_step env service f w = (Inr (), ?w1)"
      using Inr by (simp add: validate_step_effect)
    from Cons.prems have rest: "for_each fs (validate_step env service) ?w1 = (r, w')"
      by (simp add: thn_def bnd_def step)
    note ih = Cons.IH [OF rest]
    show ?thesis
    proof (cases r)
      case (Inl e)
      with ih show ?thesis by auto
    next
      case (Inr u)
      with ih obtain rs where rs: "map Inr rs = map (analyzeFrame_outcome env service) fs"
        and w': "w' = ?w1\<lparr>validationResults := validationResults ?w1 @ rs,
                             closed_frames := closed_frames ?w1 @ map frame_id fs\<rparr>"
        by auto
      have "map Inr (res # rs) = map (analyzeFrame_outcome env service) (f # fs)"
        using rs \<open>analyzeFrame_outcome env service f = Inr res\<close> by simp
      moreover have "w' = w\<lparr>validationResults := validationResults w @ (res # rs),
                             closed_frames := closed_frames w @ map frame_id (f # fs)\<rparr>"
        using w' by simp
      ultimately show ?thesis
        using Inr by (simp del: map_eq_Cons_conv list.map) blast
    qed
  qed
qed

lemma validateCapturedFrames_returned:
  assumes "faceDetectionService w = Some service"
    and "validateCapturedFrames env w = (Inr (), w')"
    and "capturedFramesForValidation w \<noteq> []"
  shows "map Inr (validationResults w') = map (analyzeFrame_outcome env service) (capturedFramesForValidation w)"
proof -
  let ?w0 = "w\<lparr>validationResults := []\<rparr>"
  from assms obtain w1 where l: "for_each (capturedFramesForValidation w) (validate_step env service) ?w0 = (Inr (), w1)"
    and w': "w' = w1\<lparr>capturedFramesForValidation := []\<rparr>"
    by (auto simp: validateCapturedFrames_def io_defs split: prod.splits sum.splits)
  from validate_loop [OF l] obtain rs
    where "map Inr rs = map (analyzeFrame_outcome env service) (capturedFramesForValidation w)"
      and "w1 = ?w0\<lparr>validationResults := validationResults ?w0 @ rs,
                        closed_frames := closed_frames ?w0 @ map frame_id (capturedFramesForValidation w)\<rparr>"
    by auto
  then show ?thesis
    using w' by simp
qed

lemma validateCapturedFrames_returns:
  assumes "faceDetectionService w = Some service"
    and "\<forall>f \<in> set (capturedFramesForValidation w). \<exists>r. analyzeFrame_outcome env service f = Inr r"
  shows "fst (validateCapturedFrames env w) = Inr ()"
proof (cases "capturedFramesForValidation w = []")
  case True
  with assms(1) show ?thesis by (simp add: validateCapturedFrames_def ret_def)
next
  case False
  let ?w0 = "w\<lparr>validationResults := []\<rparr>"
  obtain r w1 where l: "for_each (capturedFramesForValidation w) (validate_step env service) ?w0 = (r, w1)"
    by (cases "for_each (capturedFramesForValidation w) (validate_step env service) ?w0")
  have "r = Inr ()"
  proof (cases r)
    case (Inl e)
    with validate_loop [OF l] assms(2) show ?thesis by auto
  next
    case (Inr u)
    then show ?thesis by simp
  qed
  with l False assms(1) show ?thesis
    by (simp add: validateCapturedFrames_def io_defs)
qed

lemma validateCapturedFrames_throws:
  assumes "faceDetectionService w = Some service"
    and "f \<in> set (capturedFramesForValidation w)"
    and "analyzeFrame_outcome env service f = Inl e"
  shows "\<exists>e'. fst (validateCapturedFrames env w) = Inl e'"
proof -
  let ?w0 = "w\<lparr>validationResults := []\<rparr>"
  obtain r w1 where l: "for_each (capturedFramesForValidation w) (validate_step env service) ?w0 = (r, w1)"
    by (cases "for_each (capturedFramesForValidation w) (validate_step env service) ?w0")
  have "\<exists>e'. r = Inl e'"
  proof (cases r)
    case (Inl e')
    then show ?thesis by simp
  next
    case (Inr u)
    with validate_loop [OF l] obtain rs
      where "map Inr rs = map (analyzeFrame_outcome env service) (capturedFramesForValidation w)"
      by auto
    then have "analyzeFrame_outcome env service f \<in> Inr ` set rs"
      using assms(2) by (metis image_eqI list.set_map)
    with assms(3) show ?thesis by auto
  qed
  with l assms(1,2) show ?thesis
    by (auto simp: validateCapturedFrames_def io_defs)
qed

subsection \<open>The example run up to the validation\<close>

lemma capture_run:
  "(case captureAndEncodeFrames (run_env classifier) encoder_world of
      (r, w) \<Rightarrow> r = Inr ()
         \<and> capturedFramesForValidation w =
             [\<lparr>frame_id = 2, frame_timestamp = 0\<rparr>, \<lparr>frame_id = 8, frame_timestamp = 0\<rparr>,
              \<lparr>frame_id = 14, frame_timestamp = 0\<rparr>, \<lparr>frame_id = 20, frame_timestamp = 0\<rparr>])"
  by (simp add: captureAndEncodeFrames_def show_overlay_def hide_overlay_def flush_def VideoEncoder_flush_def
        handleEncodedChunk_def encoder_output_def upt20 encoder_world_def camera_world_def
        example_service_def example_track_def run_env_def
        new_world_def createOverlay_def example_env_def capture_step_def
        setColor_def sleep_def wait_def readFrames_resume_def resume_task_def captureFrame_def
        VideoFrame_clone_def encodeFrame_def VideoEncoder_encode_def VideoFrame_close_def is_closed_def
        FLASH_PATTERN_def FRAME_COUNT_def FRAME_INTERVAL_MS_def FLASH_DISPLAY_DELAY_MS_def TOTAL_DURATION_MS_def
        VALIDATION_FRAME_SAMPLING_RATE_def encoder_error_event_def io_defs)

lemma capture_run_world:
  "captureAndEncodeFrames (run_env classifier) encoder_world
     = (Inr (), snd (captureAndEncodeFrames (run_env classifier) encoder_world))"
  using capture_returns [of classifier]
  by (cases "captureAndEncodeFrames (run_env classifier) encoder_world") simp

lemma capture_run_samples:
  "capturedFramesForValidation (snd (captureAndEncodeFrames (run_env classifier) encoder_world)) =
     [\<lparr>frame_id = 2, frame_timestamp = 0\<rparr>, \<lparr>frame_id = 8, frame_timestamp = 0\<rparr>,
      \<lparr>frame_id = 14, frame_timestamp = 0\<rparr>, \<lparr>frame_id = 20, frame_timestamp = 0\<rparr>]"
  using capture_run [of classifier]
  by (cases "captureAndEncodeFrames (run_env classifier) encoder_world") simp

lemma capture_first_chunk:
  assumes "captureAndEncodeFrames env w = (Inr (), w')"
    and "encodedChunks (encoderService w) = []" and "the_queue w = []"
  shows "getEncodedChunks w' \<noteq> []"
    and "chunk_type (ec_data (hd (getEncodedChunks w'))) = key"
proof -
  from captureAndEncodeFrames_effect(1) [OF assms(1)] obtain frames
    where f: "length frames = FRAME_COUNT"
      and e: "encodedChunks (encoderService w') =
               encodedChunks (encoderService w) @ map (chunk_of env) (the_queue w @ zip frames key_flags)"
    by blast
  obtain f0 rest where fr: "frames = f0 # rest"
    using f by (cases frames) (simp_all add: FRAME_COUNT_def)
  have chunks: "getEncodedChunks w' = chunk_of env (f0, True) # map (chunk_of env) (zip rest (replicate 19 False))"
    using e assms(2,3) fr by (simp add: getEncodedChunks_def key_flags_value)
  show "getEncodedChunks w' \<noteq> []"
    using chunks by simp
  show "chunk_type (ec_data (hd (getEncodedChunks w'))) = key"
    using chunks by (simp add: chunk_of_def encoder_output_def)
qed

lemma decode_run:
  "decodeAndRender (run_env classifier) (snd (captureAndEncodeFrames (run_env classifier) encoder_world))
     = (Inr (), decoded_world classifier)"
proof -
  let ?env = "run_env classifier"
  let ?w2 = "snd (captureAndEncodeFrames ?env encoder_world)"
  note c = capture_run_world [of classifier]
  have q: "encodedChunks (encoderService encoder_world) = []" "the_queue encoder_world = []"
    by (simp_all add: encoder_world_def the_queue_def)
  have m: "mediaStream ?w2 = Some (example_track # [])"
    using captureAndEncodeFrames_effect(5) [OF c] by (simp add: encoder_world_def camera_world_def)
  have s: "env_decoder_supported ?env ''vp8'' (or_default (settings_width example_track) 1280)
           (or_default (settings_height example_track) 720)"
    by (simp add: run_env_def example_env_def)
  have cv: "env_canvas_context ?env"
    by (simp add: run_env_def example_env_def)
  have "fst (decodeAndRender ?env ?w2) = Inr ()"
    by (rule decodeAndRender_returns [OF capture_first_chunk(1) [OF c q] capture_first_chunk(2) [OF c q] m s cv])
  then show ?thesis
    unfolding decoded_world_def
    by (cases "decodeAndRender ?env ?w2") simp
qed

lemma decoded_world_fields:
  "faceDetectionService (decoded_world classifier) = Some example_service"
  "capturedFramesForValidation (decoded_world classifier) =
     [\<lparr>frame_id = 2, frame_timestamp = 0\<rparr>, \<lparr>frame_id = 8, frame_timestamp = 0\<rparr>,
      \<lparr>frame_id = 14, frame_timestamp = 0\<rparr>, \<lparr>frame_id = 20, frame_timestamp = 0\<rparr>]"
  "validationResults (decoded_world classifier) = []"
proof -
  let ?env = "run_env classifier"
  let ?w2 = "snd (captureAndEncodeFrames ?env encoder_world)"
  note c = capture_run_world [of classifier]
  have k: "kept ?w2 (decoded_world classifier)"
    by (rule keepsD [OF keeps_decodeAndRender decode_run])
  show "faceDetectionService (decoded_world classifier) = Some example_service"
    using k captureAndEncodeFrames_effect(3) [OF c]
    by (simp add: kept_def encoder_world_def camera_world_def new_world_def)
  show "capturedFramesForValidation (decoded_world classifier) =
     [\<lparr>frame_id = 2, frame_timestamp = 0\<rparr>, \<lparr>frame_id = 8, frame_timestamp = 0\<rparr>,
      \<lparr>frame_id = 14, frame_timestamp = 0\<rparr>, \<lparr>frame_id = 20, frame_timestamp = 0\<rparr>]"
    using k capture_run_samples [of classifier] by (simp add: kept_def)
  show "validationResults (decoded_world classifier) = []"
    using k captureAndEncodeFrames_effect(4) [OF c]
    by (simp add: kept_def encoder_world_def camera_world_def new_world_def)
qed

lemma workflow_run:
  "workflow (run_env classifier) (new_world (Some example_service))
     = thn (validateCapturedFrames (run_env classifier)) cleanup (decoded_world classifier)"
proof -
  obtain w2 where c: "captureAndEncodeFrames (run_env classifier) encoder_world = (Inr (), w2)"
    using capture_run_world [of classifier] by blast
  have d: "decodeAndRender (run_env classifier) w2 = (Inr (), decoded_world classifier)"
    using decode_run [of classifier] c by simp
  show ?thesis
    by (simp add: workflow_def thn_def bnd_def camera_world_reached encoder_world_reached
          c d decoded_world_fields(1))
qed

lemma execute_run:
  "execute (run_env classifier) (new_world (Some example_service))
     = (case validateCapturedFrames (run_env classifier) (decoded_world classifier) of
          (Inl error, w) \<Rightarrow> (Inl error, cleanup_state w)
        | (Inr u, w) \<Rightarrow> (Inr (), cleanup_state w))"
  by (simp add: execute_def workflow_run thn_def bnd_def throw_def cleanup_effect
           split: prod.splits sum.splits)

subsection \<open>Outcomes of the classifier in the examples\<close>

lemma validateCapturedFrames_thrown:
  assumes "faceDetectionService w = Some service"
    and "capturedFramesForValidation w = f1 # f2 # fs"
    and "analyzeFrame_outcome env service f1 = Inr r1"
    and "analyzeFrame_outcome env service f2 = Inl e"
  shows "validateCapturedFrames env w =
           (Inl e, w\<lparr>validationResults := [r1], closed_frames := closed_frames w @ [frame_id f1]\<rparr>)"
  using assms
  by (simp add: validateCapturedFrames_def thn_def bnd_def modify_def validate_step_effect)

lemma example_outcome:
  "analyzeFrame_outcome example_env example_service f =
     Inr \<lparr>isValid = True, hasFace = True, isFacingCamera = True, wearingGlasses = False,
          wearingHeadwear = False, confidence = 1, reason = ''No reason provided''\<rparr>"
  by (simp add: analyzeFrame_outcome_def analyzeFrame_try_def example_env_def example_service_def
        detectionResult_def json_boolean_or_false_def)

lemma slow_outcome:
  "analyzeFrame_outcome slow_env example_service f =
     (if frame_id f = 8 then Inl (Error ''OpenAI API request timed out after 30 seconds'')
      else Inr \<lparr>isValid = True, hasFace = True, isFacingCamera = True, wearingGlasses = False,
          wearingHeadwear = False, confidence = 1, reason = ''No reason provided''\<rparr>)"
  by (simp add: analyzeFrame_outcome_def analyzeFrame_try_def example_env_def example_service_def
        detectionResult_def json_boolean_or_false_def slow_env_def run_env_def analyzeFrame_catch_def)


section \<open>The claims\<close>

text \<open>
  C7. \<open>encodeFrame\<close> and \<open>flush\<close> fail with the error \<^verbatim>\<open>Encoder not initialized\<close>, and leave
  the whole store as it was, when they are called on a new service, after an
  \<open>initialize\<close> that failed on a service without a codec, or after \<open>dispose\<close>.
\<close>

theorem encoder_calls_without_initialize:
  assumes "w = new_world fds
         \<or> (encoder (encoderService w0) = None \<and> VideoEncoderService_initialize env0 config w0 = (Inl e, w))
         \<or> w = snd (VideoEncoderService_dispose w0)"
  shows "encodeFrame frame keyFrame w = (Inl (Error ''Encoder not initialized''), w)
       \<and> flush env w = (Inl (Error ''Encoder not initialized''), w)"
proof -
  have "encoder (encoderService w) = None"
    using assms
    by (auto simp: new_world_def VideoEncoderService_dispose_effect dest: initialize_failed_unchanged)
  then show ?thesis
    by (simp add: encodeFrame_no_encoder flush_no_encoder)
qed

theorem encoder_calls_without_initialize_witness:
  "fst (encodeFrame example_frame True configured_world) = Inr ()
   \<and> encodeFrame example_frame True (snd (VideoEncoderService_dispose configured_world))
     = (Inl (Error ''Encoder not initialized''), snd (VideoEncoderService_dispose configured_world))
   \<and> flush example_env (snd (VideoEncoderService_dispose configured_world))
     = (Inl (Error ''Encoder not initialized''), snd (VideoEncoderService_dispose configured_world))
   \<and> encodeFrame example_frame True (new_world None)
     = (Inl (Error ''Encoder not initialized''), new_world None)"
proof -
  have h1: "snd (VideoEncoderService_dispose configured_world) = new_world None
         \<or> (encoder (encoderService configured_world) = None
            \<and> VideoEncoderService_initialize example_env example_config configured_world
                = (Inl NonError, snd (VideoEncoderService_dispose configured_world)))
         \<or> snd (VideoEncoderService_dispose configured_world) = snd (VideoEncoderService_dispose configured_world)"
    by (intro disjI2) (rule refl)
  have h2: "new_world None = new_world None
         \<or> (encoder (encoderService configured_world) = None
            \<and> VideoEncoderService_initialize example_env example_config configured_world
                = (Inl NonError, new_world None))
         \<or> new_world None = snd (VideoEncoderService_dispose configured_world)"
    by (intro disjI1) (rule refl)
  have h3: "fst (encodeFrame example_frame True configured_world) = Inr ()"
    by (simp only: encodeFrame_configured_world fst_conv)
  from h3 encoder_calls_without_initialize [OF h1, of example_frame True example_env]
    encoder_calls_without_initialize [OF h2, of example_frame True example_env]
  show ?thesis by blast
qed

text \<open>
  C8. When \<open>encodeFrame\<close> returns, the input frame has been closed (and was submitted to
  the encoder just before); when it fails with \<^verbatim>\<open>Encoder not initialized\<close> or with
  \<^verbatim>\<open>Encoder is in ... state\<close>, nothing in the store has changed: the frame has not been
  closed.
\<close>

theorem encodeFrame_frame_ownership:
  assumes "encodeFrame frame keyFrame w = (r, w')"
  shows "(r = Inr () \<longrightarrow> is_closed w' frame \<and> closed_frames w' = closed_frames w @ [frame_id frame]
                       \<and> encode_calls w' = encode_calls w @ [(frame, keyFrame)])
       \<and> (r = Inl (Error ''Encoder not initialized'')
            \<or> (\<exists>s. r = Inl (Error (''Encoder is in '' @ s @ '' state'')))
          \<longrightarrow> w' = w \<and> is_closed w' frame = is_closed w frame)"
proof (cases r)
  case (Inl e)
  with assms have "w' = w" by (simp add: encodeFrame_failed_unchanged)
  with Inl show ?thesis by simp
next
  case (Inr u)
  with assms have "closed_frames w' = closed_frames w @ [frame_id frame]"
    and "encode_calls w' = encode_calls w @ [(frame, keyFrame)]"
    using encodeFrame_succeeded [of frame keyFrame w u w'] by simp_all
  with Inr show ?thesis by (simp add: is_closed_def)
qed

theorem encodeFrame_frame_ownership_witness:
  "\<not> is_closed configured_world example_frame
   \<and> fst (encodeFrame example_frame True configured_world) = Inr ()
   \<and> is_closed (snd (encodeFrame example_frame True configured_world)) example_frame
   \<and> encodeFrame example_frame True closed_encoder_world
       = (Inl (Error ''Encoder is in closed state''), closed_encoder_world)
   \<and> \<not> is_closed closed_encoder_world example_frame"
proof -
  have a: "\<not> is_closed configured_world example_frame"
    by (simp add: configured_world_def new_world_def is_closed_def)
  have b: "encodeFrame example_frame True configured_world
             = (Inr (), snd (encodeFrame example_frame True configured_world))"
    by (simp only: encodeFrame_configured_world snd_conv)
  have c: "encodeFrame example_frame True closed_encoder_world
             = (Inl (Error (''Encoder is in '' @ ''closed'' @ '' state'')), closed_encoder_world)"
    by (simp add: closed_encoder_world_def encoder_error_event_def configured_world_def new_world_def
          encodeFrame_def codec_state_name_def io_defs)
  have d: "\<not> is_closed closed_encoder_world example_frame"
    by (simp add: closed_encoder_world_def encoder_error_event_def configured_world_def new_world_def
          is_closed_def)
  have b': "fst (encodeFrame example_frame True configured_world) = Inr ()"
    by (simp only: encodeFrame_configured_world fst_conv)
  from a b' c d encodeFrame_frame_ownership [OF b] encodeFrame_frame_ownership [OF c]
  show ?thesis by simp
qed

text \<open>
  C9. The \<open>dispose\<close> of the frame capture service, of the encoder, of the decoder and of
  the flash controller, and the orchestrator's \<open>cleanup\<close>, each return without an error
  from every store, and a second call returns without an error and leaves the store
  exactly as the first call left it.
\<close>

theorem dispose_idempotent:
  "(fst (FrameCaptureService_dispose w) = Inr ()
      \<and> FrameCaptureService_dispose (snd (FrameCaptureService_dispose w))
          = (Inr (), snd (FrameCaptureService_dispose w)))
   \<and> (fst (VideoEncoderService_dispose w) = Inr ()
      \<and> VideoEncoderService_dispose (snd (VideoEncoderService_dispose w))
          = (Inr (), snd (VideoEncoderService_dispose w)))
   \<and> (fst (VideoDecoderService_dispose w) = Inr ()
      \<and> VideoDecoderService_dispose (snd (VideoDecoderService_dispose w))
          = (Inr (), snd (VideoDecoderService_dispose w)))
   \<and> (fst (ScreenFlashController_dispose w) = Inr ()
      \<and> ScreenFlashController_dispose (snd (ScreenFlashController_dispose w))
          = (Inr (), snd (ScreenFlashController_dispose w)))
   \<and> (fst (cleanup w) = Inr ()
      \<and> cleanup (snd (cleanup w)) = (Inr (), snd (cleanup w)))"
proof -
  have a: "FrameCaptureService_dispose (snd (FrameCaptureService_dispose w))
          = (Inr (), snd (FrameCaptureService_dispose w))"
    by (simp add: FrameCaptureService_dispose_effect option_list_def)
  have b: "VideoEncoderService_dispose (snd (VideoEncoderService_dispose w))
          = (Inr (), snd (VideoEncoderService_dispose w))"
    by (simp add: VideoEncoderService_dispose_effect)
  have c: "VideoDecoderService_dispose (snd (VideoDecoderService_dispose w))
          = (Inr (), snd (VideoDecoderService_dispose w))"
    by (simp add: VideoDecoderService_dispose_effect)
  have d: "ScreenFlashController_dispose (snd (ScreenFlashController_dispose w))
          = (Inr (), snd (ScreenFlashController_dispose w))"
    by (simp add: ScreenFlashController_dispose_effect split: option.splits)
  have e: "cleanup (snd (cleanup w)) = (Inr (), snd (cleanup w))"
    by (simp add: cleanup_effect cleanup_state_def option_list_def split: option.splits)
  have f: "fst (FrameCaptureService_dispose w) = Inr ()" "fst (VideoEncoderService_dispose w) = Inr ()"
    "fst (VideoDecoderService_dispose w) = Inr ()" "fst (ScreenFlashController_dispose w) = Inr ()"
    "fst (cleanup w) = Inr ()"
    by (simp_all only: FrameCaptureService_dispose_effect VideoEncoderService_dispose_effect
          VideoDecoderService_dispose_effect ScreenFlashController_dispose_effect cleanup_effect fst_conv)
  from a b c d e f show ?thesis by blast
qed





text \<open>
  C4. When the capture sequence returns, the timer waits it has made are, in order, the
  50 ms settle delay of each of the 20 steps, followed after every step but the last by
  the rest of the step's interval, 500 - 50 ms. They add up to 9550 ms: the total
  duration of 10000 ms less the one remainder that is not waited for after the last step.
\<close>

theorem capture_waits_total:
  assumes "captureAndEncodeFrames env w = (Inr (), w')"
  shows "timers w' = timers w @ capture_waits
       \<and> capture_waits = [50, 450, 50, 450, 50, 450, 50, 450, 50, 450, 50, 450, 50, 450, 50, 450,
                            50, 450, 50, 450, 50, 450, 50, 450, 50, 450, 50, 450, 50, 450, 50, 450,
                            50, 450, 50, 450, 50, 450, 50]
       \<and> sum_list capture_waits = 9550
       \<and> sum_list capture_waits + (FRAME_INTERVAL_MS - FLASH_DISPLAY_DELAY_MS) = TOTAL_DURATION_MS"
  using captureAndEncodeFrames_effect(2) [OF assms] capture_waits_value(1) capture_waits_list
  by (simp add: FRAME_INTERVAL_MS_def FLASH_DISPLAY_DELAY_MS_def TOTAL_DURATION_MS_def FRAME_COUNT_def)

theorem capture_waits_total_witness:
  "fst (captureAndEncodeFrames example_env encoder_world) = Inr ()
   \<and> timers (snd (captureAndEncodeFrames example_env encoder_world)) = [50] @ capture_waits
   \<and> sum_list capture_waits = 9550"
proof -
  have t: "timers encoder_world = [50]"
    by (simp add: encoder_world_def camera_world_def)
  from capture_waits_total [OF capture_example]
  have "timers (snd (captureAndEncodeFrames example_env encoder_world)) = timers encoder_world @ capture_waits"
    and "sum_list capture_waits = 9550"
    by blast+
  with t capture_example_fst show ?thesis by simp
qed

theorem capture_waits_not_total_duration:
  "fst (captureAndEncodeFrames example_env encoder_world) = Inr ()
   \<and> sum_list (drop (length (timers encoder_world))
                 (timers (snd (captureAndEncodeFrames example_env encoder_world)))) = 9550
   \<and> TOTAL_DURATION_MS = 10000
   \<and> length FLASH_PATTERN = 20"
proof -
  have "timers (snd (captureAndEncodeFrames example_env encoder_world)) = timers encoder_world @ capture_waits"
    by (rule captureAndEncodeFrames_effect(2) [OF capture_example])
  then have "sum_list (drop (length (timers encoder_world))
                 (timers (snd (captureAndEncodeFrames example_env encoder_world)))) = 9550"
    by (simp add: capture_waits_value(1))
  moreover have "TOTAL_DURATION_MS = 10000" "length FLASH_PATTERN = 20"
    by (simp_all add: TOTAL_DURATION_MS_def FLASH_PATTERN_def)
  ultimately show ?thesis
    using capture_example_fst by blast
qed

text \<open>
  C5. When the encoder has been initialized and the capture sequence then returns, the
  encoder service holds exactly one chunk for each of the 20 capture points: the chunks
  are the outputs of the frames submitted during the sequence, in the order of
  submission; only the first frame was submitted with the key frame flag, and the first
  chunk is a key chunk.
\<close>

theorem chunk_per_capture_point:
  assumes "initializeEncoder env w0 = (Inr (), w1)"
    and "captureAndEncodeFrames env w1 = (Inr (), w2)"
  shows "length (getEncodedChunks w2) = FRAME_COUNT
       \<and> FRAME_COUNT = length FLASH_PATTERN
       \<and> length FLASH_PATTERN = 20
       \<and> getEncodedChunks w2 = map (chunk_of env) (drop (length (encode_calls w1)) (encode_calls w2))
       \<and> map snd (drop (length (encode_calls w1)) (encode_calls w2)) = True # replicate 19 False
       \<and> ec_type (hd (getEncodedChunks w2)) = key
       \<and> chunk_type (ec_data (hd (getEncodedChunks w2))) = key"
proof -
  note i = initializeEncoder_effect [OF assms(1)]
  from captureAndEncodeFrames_effect(1) [OF assms(2)] obtain frames
    where f: "length frames = FRAME_COUNT"
      and c: "encode_calls w2 = encode_calls w1 @ zip frames key_flags"
      and e: "encodedChunks (encoderService w2) =
               encodedChunks (encoderService w1) @ map (chunk_of env) (the_queue w1 @ zip frames key_flags)"
    by blast
  have q: "the_queue w1 = []" "encodedChunks (encoderService w1) = []"
    using i(1) by (simp_all add: the_queue_def)
  have chunks: "getEncodedChunks w2 = map (chunk_of env) (zip frames key_flags)"
    using e q by (simp add: getEncodedChunks_def)
  have calls: "drop (length (encode_calls w1)) (encode_calls w2) = zip frames key_flags"
    using c by simp
  obtain f0 rest where fr: "frames = f0 # rest" "length rest = 19"
    using f by (cases frames) (simp_all add: FRAME_COUNT_def)
  have hd: "hd (getEncodedChunks w2) = chunk_of env (f0, True)"
    using chunks fr by (simp add: key_flags_value)
  have "length (getEncodedChunks w2) = FRAME_COUNT"
    using chunks f by (simp add: key_flags_length)
  moreover have "map snd (drop (length (encode_calls w1)) (encode_calls w2)) = True # replicate 19 False"
    using calls f key_flags_length by (simp add: key_flags_value [symmetric])
  moreover have "ec_type (hd (getEncodedChunks w2)) = key" "chunk_type (ec_data (hd (getEncodedChunks w2))) = key"
    using hd by (simp_all add: chunk_of_def encoder_output_def)
  ultimately show ?thesis
    using chunks calls by (simp add: FRAME_COUNT_def FLASH_PATTERN_def)
qed

theorem chunk_per_capture_point_witness:
  "initializeEncoder example_env camera_world = (Inr (), encoder_world)
   \<and> fst (captureAndEncodeFrames example_env encoder_world) = Inr ()
   \<and> length (getEncodedChunks (snd (captureAndEncodeFrames example_env encoder_world))) = 20
   \<and> ec_type (hd (getEncodedChunks (snd (captureAndEncodeFrames example_env encoder_world)))) = key"
proof -
  have a: "initializeEncoder example_env camera_world = (Inr (), encoder_world)"
    using encoder_world_reached [of "env_openai example_env"] by (simp add: run_env_example)
  from chunk_per_capture_point [OF a capture_example]
  have "length (getEncodedChunks (snd (captureAndEncodeFrames example_env encoder_world))) = FRAME_COUNT"
    and "ec_type (hd (getEncodedChunks (snd (captureAndEncodeFrames example_env encoder_world)))) = key"
    by blast+
  then have "length (getEncodedChunks (snd (captureAndEncodeFrames example_env encoder_world))) = 20"
    and "ec_type (hd (getEncodedChunks (snd (captureAndEncodeFrames example_env encoder_world)))) = key"
    by (simp_all only: FRAME_COUNT_def)
  with a capture_example_fst show ?thesis by blast
qed

text \<open>
  C6. When a classifier is configured and the capture sequence, the decoding phase and
  the validation have returned, four frames were sampled, copies of the frames captured
  at the steps 0, 5, 10 and 15; there are exactly four validation results, they are what
  the classifier returned for the sampled frames, in the order of sampling, and in each
  of them \<^verbatim>\<open>isValid\<close> is true exactly when \<^verbatim>\<open>hasFace\<close> and \<^verbatim>\<open>isFacingCamera\<close> both are. The
  validation has to return: in the run of \<open>slow_env\<close>, twenty frames are captured and four
  sampled, the request for the second sampled frame times out, \<^verbatim>\<open>execute\<close> fails, and
  there is one validation result.
\<close>

theorem validation_results_in_sampling_order:
  assumes "faceDetectionService w1 = Some service"
    and "captureAndEncodeFrames env w1 = (Inr (), w2)"
    and "decodeAndRender env w2 = (Inr (), w3)"
    and "validateCapturedFrames env w3 = (Inr (), w4)"
  shows "length (capturedFramesForValidation w2) = 4
       \<and> map frame_timestamp (capturedFramesForValidation w2)
           = map (\<lambda>i. frame_timestamp (fst (drop (length (encode_calls w1)) (encode_calls w2) ! i)))
               [0, VALIDATION_FRAME_SAMPLING_RATE, 2 * VALIDATION_FRAME_SAMPLING_RATE,
                3 * VALIDATION_FRAME_SAMPLING_RATE]
       \<and> length (getValidationResults (snd (cleanup w4))) = 4
       \<and> map Inr (getValidationResults (snd (cleanup w4)))
           = map (analyzeFrame_outcome env service) (capturedFramesForValidation w2)
       \<and> (\<forall>r \<in> set (getValidationResults (snd (cleanup w4))). isValid r = (hasFace r \<and> isFacingCamera r))"
proof -
  from captureAndEncodeFrames_effect(1) [OF assms(2)] obtain frames
    where f: "length frames = FRAME_COUNT"
      and c: "encode_calls w2 = encode_calls w1 @ zip frames key_flags"
      and s: "map frame_timestamp (capturedFramesForValidation w2) =
               map (frame_timestamp \<circ> fst) (filter (sampled w1) (zip frames [0..<FRAME_COUNT]))"
    by blast
  have fds2: "faceDetectionService w2 = Some service"
    using captureAndEncodeFrames_effect(3) [OF assms(2)] assms(1) by simp
  have k: "kept w2 w3"
    by (rule keepsD [OF keeps_decodeAndRender assms(3)])
  have fds3: "faceDetectionService w3 = Some service"
    and cf3: "capturedFramesForValidation w3 = capturedFramesForValidation w2"
    using k fds2 by (simp_all add: kept_def)
  have pos: "filter (sampled w1) (zip frames [0..<FRAME_COUNT]) = map (\<lambda>i. (frames ! i, i)) [0, 5, 10, 15]"
    using f assms(1) by (intro sampled_positions) simp_all
  have ts: "map frame_timestamp (capturedFramesForValidation w2)
              = map (\<lambda>i. frame_timestamp (frames ! i)) [0, 5, 10, 15]"
    using s pos by simp
  have len: "length (capturedFramesForValidation w2) = 4"
    using arg_cong [OF ts, of length] by simp
  have calls: "drop (length (encode_calls w1)) (encode_calls w2) = zip frames key_flags"
    using c by simp
  have nth: "\<And>i. i < 20 \<Longrightarrow> fst (zip frames key_flags ! i) = frames ! i"
    using f key_flags_length by (simp add: FRAME_COUNT_def)
  have ts': "map frame_timestamp (capturedFramesForValidation w2)
           = map (\<lambda>i. frame_timestamp (fst (drop (length (encode_calls w1)) (encode_calls w2) ! i)))
               [0, VALIDATION_FRAME_SAMPLING_RATE, 2 * VALIDATION_FRAME_SAMPLING_RATE,
                3 * VALIDATION_FRAME_SAMPLING_RATE]"
    using ts by (simp add: calls nth VALIDATION_FRAME_SAMPLING_RATE_def)
  have ne: "capturedFramesForValidation w3 \<noteq> []"
    using len cf3 by auto
  have res: "map Inr (validationResults w4) = map (analyzeFrame_outcome env service) (capturedFramesForValidation w2)"
    using validateCapturedFrames_returned [OF fds3 assms(4) ne] cf3 by simp
  have fin: "getValidationResults (snd (cleanup w4)) = validationResults w4"
    by (simp add: cleanup_effect cleanup_state_def getValidationResults_def)
  have l4: "length (validationResults w4) = 4"
    using arg_cong [OF res, of length] len by simp
  have valid: "\<forall>r \<in> set (validationResults w4). isValid r = (hasFace r \<and> isFacingCamera r)"
  proof
    fix r assume "r \<in> set (validationResults w4)"
    then have "Inr r \<in> set (map (analyzeFrame_outcome env service) (capturedFramesForValidation w2))"
      using res by (metis image_eqI list.set_map)
    then obtain fr where "analyzeFrame_outcome env service fr = Inr r"
      by auto
    then show "isValid r = (hasFace r \<and> isFacingCamera r)"
      by (rule outcome_valid)
  qed
  show ?thesis
    unfolding fin using len ts' l4 res valid by blast
qed

theorem validation_results_in_sampling_order_witness:
  "faceDetectionService encoder_world = Some example_service
   \<and> fst (captureAndEncodeFrames example_env encoder_world) = Inr ()
   \<and> fst (decodeAndRender example_env (snd (captureAndEncodeFrames example_env encoder_world))) = Inr ()
   \<and> fst (validateCapturedFrames example_env (decoded_world (env_openai example_env))) = Inr ()
   \<and> map isValid (getValidationResults (snd (cleanup (snd (validateCapturedFrames example_env
                (decoded_world (env_openai example_env))))))) = [True, True, True, True]"
proof -
  let ?c = "env_openai example_env"
  let ?w2 = "snd (captureAndEncodeFrames example_env encoder_world)"
  let ?w3 = "decoded_world ?c"
  let ?w4 = "snd (validateCapturedFrames example_env ?w3)"
  let ?r = "\<lparr>isValid = True, hasFace = True, isFacingCamera = True, wearingGlasses = False,
          wearingHeadwear = False, confidence = 1, reason = ''No reason provided''\<rparr>"
  have a: "faceDetectionService encoder_world = Some example_service"
    by (simp add: encoder_world_def camera_world_def new_world_def)
  have b: "captureAndEncodeFrames example_env encoder_world = (Inr (), ?w2)"
    by (rule capture_example)
  have c: "decodeAndRender example_env ?w2 = (Inr (), ?w3)"
    using decode_run [of ?c] by (simp only: run_env_example)
  have d': "fst (validateCapturedFrames example_env ?w3) = Inr ()"
    by (rule validateCapturedFrames_returns [OF decoded_world_fields(1)]) (simp add: example_outcome)
  then have d: "validateCapturedFrames example_env ?w3 = (Inr (), ?w4)"
    by (cases "validateCapturedFrames example_env ?w3") simp
  have s: "capturedFramesForValidation ?w2 =
     [\<lparr>frame_id = 2, frame_timestamp = 0\<rparr>, \<lparr>frame_id = 8, frame_timestamp = 0\<rparr>,
      \<lparr>frame_id = 14, frame_timestamp = 0\<rparr>, \<lparr>frame_id = 20, frame_timestamp = 0\<rparr>]"
    using capture_run_samples [of ?c] by (simp only: run_env_example)
  from validation_results_in_sampling_order [OF a b c d]
  have "map Inr (getValidationResults (snd (cleanup ?w4)))
           = map (analyzeFrame_outcome example_env example_service) (capturedFramesForValidation ?w2)"
    by blast
  then have "map Inr (getValidationResults (snd (cleanup ?w4)))
               = [Inr ?r, Inr ?r, Inr ?r, Inr ?r :: thrown + IFaceDetectionResult]"
    by (simp add: s example_outcome)
  then have "getValidationResults (snd (cleanup ?w4)) = [?r, ?r, ?r, ?r]"
    by (auto simp: map_eq_Cons_conv)
  then have e: "map isValid (getValidationResults (snd (cleanup ?w4))) = [True, True, True, True]"
    by simp
  have b': "fst (captureAndEncodeFrames example_env encoder_world) = Inr ()"
    by (rule capture_example_fst)
  have c': "fst (decodeAndRender example_env ?w2) = Inr ()"
    using c by simp
  show ?thesis
    using a b' c' d' e by blast
qed

theorem validation_results_fewer_than_sampled:
  "faceDetectionService encoder_world = Some example_service
   \<and> fst (captureAndEncodeFrames slow_env encoder_world) = Inr ()
   \<and> length (encode_calls (snd (captureAndEncodeFrames slow_env encoder_world))) = 20
   \<and> length (capturedFramesForValidation (snd (captureAndEncodeFrames slow_env encoder_world))) = 4
   \<and> fst (execute slow_env (new_world (Some example_service)))
        = Inl (Error ''OpenAI API request timed out after 30 seconds'')
   \<and> length (getValidationResults (snd (execute slow_env (new_world (Some example_service))))) = 1"
proof -
  let ?c = "\<lambda>f. if frame_id f = 8
       then FetchFails (JsError ''AbortError'' ''signal is aborted without reason'')
       else env_openai example_env f"
  let ?r = "\<lparr>isValid = True, hasFace = True, isFacingCamera = True, wearingGlasses = False,
          wearingHeadwear = False, confidence = 1, reason = ''No reason provided''\<rparr>"
  have env: "run_env ?c = slow_env"
    by (simp add: slow_env_def)
  have a: "faceDetectionService encoder_world = Some example_service"
    by (simp add: encoder_world_def camera_world_def new_world_def)
  have b: "fst (captureAndEncodeFrames slow_env encoder_world) = Inr ()"
    using capture_returns [of ?c] by (simp only: env)
  have bw: "captureAndEncodeFrames slow_env encoder_world
              = (Inr (), snd (captureAndEncodeFrames slow_env encoder_world))"
    using capture_run_world [of ?c] by (simp only: env)
  from captureAndEncodeFrames_effect(1) [OF bw] obtain frames
    where "length frames = FRAME_COUNT"
      and "encode_calls (snd (captureAndEncodeFrames slow_env encoder_world))
             = encode_calls encoder_world @ zip frames key_flags"
    by blast
  then have n: "length (encode_calls (snd (captureAndEncodeFrames slow_env encoder_world))) = 20"
    by (simp add: key_flags_length FRAME_COUNT_def encoder_world_def camera_world_def new_world_def)
  have s: "length (capturedFramesForValidation (snd (captureAndEncodeFrames slow_env encoder_world))) = 4"
    using capture_run_samples [of ?c] by (simp only: env) simp
  have v: "validateCapturedFrames slow_env (decoded_world ?c) =
           (Inl (Error ''OpenAI API request timed out after 30 seconds''),
            (decoded_world ?c)\<lparr>validationResults := [?r],
                 closed_frames := closed_frames (decoded_world ?c) @ [frame_id \<lparr>frame_id = 2, frame_timestamp = 0\<rparr>]\<rparr>)"
    by (rule validateCapturedFrames_thrown [OF decoded_world_fields(1) decoded_world_fields(2)])
       (simp_all add: slow_outcome)
  have x: "execute slow_env (new_world (Some example_service)) =
           (Inl (Error ''OpenAI API request timed out after 30 seconds''),
            cleanup_state ((decoded_world ?c)\<lparr>validationResults := [?r],
                 closed_frames := closed_frames (decoded_world ?c) @ [frame_id \<lparr>frame_id = 2, frame_timestamp = 0\<rparr>]\<rparr>))"
    using execute_run [of ?c] by (simp only: env v prod.case sum.case)
  have e: "fst (execute slow_env (new_world (Some example_service)))
        = Inl (Error ''OpenAI API request timed out after 30 seconds'')"
    by (simp only: x fst_conv)
  have r: "length (getValidationResults (snd (execute slow_env (new_world (Some example_service))))) = 1"
    by (simp only: x snd_conv) (simp add: cleanup_state_def getValidationResults_def)
  show ?thesis
    using a b n s e r by blast
qed

end
